theory Spec2Isabelle
  imports Complex_Main "HOL-Library.AList" "HOL-Library.Char_ord" "HOL-Library.List_Lexorder"
begin

section \<open>Python values used by the chatbot\<close>

text \<open>
  Strings are lists of UTF-8 bytes; the few non-ASCII letters of the Italian messages are
  written as their bytes. Floats are read as reals: no claim depends on rounding.
\<close>

definition e_grave :: string where
  "e_grave = [CHR 0xC3, CHR 0xA8]"

definition u_grave :: string where
  "u_grave = [CHR 0xC3, CHR 0xB9]"

subsection \<open>datetime\<close>

text \<open>
  A \<open>datetime\<close> is kept in the normal form Python's own arithmetic uses: the day number
  \<open>toordinal()\<close> (1 is 0001-01-01, a Monday), the microseconds since midnight, and the
  \<open>tzinfo\<close> (\<open>None\<close> when naive, the fixed UTC offset in minutes of a pytz-localized
  value otherwise).
\<close>

record datetime =
  ordinal :: int
  micros :: int
  tzinfo :: "int option"

definition MAXORDINAL :: int where
  "MAXORDINAL = 3652059"

definition DAY_MICROS :: int where
  "DAY_MICROS = 86400000000"

definition HOUR_MICROS :: int where
  "HOUR_MICROS = 3600000000"

text \<open>\<open>timedelta\<close> values are counted in microseconds.\<close>

definition timedelta_days :: "int \<Rightarrow> int" where
  "timedelta_days d = d * DAY_MICROS"

definition timedelta_hours :: "int \<Rightarrow> int" where
  "timedelta_hours h = h * HOUR_MICROS"

text \<open>
  \<open>dt + timedelta\<close>: the sum is renormalised; a day number outside \<open>1..MAXORDINAL\<close>
  raises OverflowError (\<open>None\<close>). The \<open>tzinfo\<close> is kept as it is.
\<close>

definition dt_add :: "datetime \<Rightarrow> int \<Rightarrow> datetime option" where
  "dt_add dt delta =
     (let total = micros dt + delta;
          days = ordinal dt + total div DAY_MICROS
      in if 0 < days \<and> days \<le> MAXORDINAL
         then Some (dt\<lparr>ordinal := days, micros := total mod DAY_MICROS\<rparr>)
         else None)"

definition dt_sub :: "datetime \<Rightarrow> int \<Rightarrow> datetime option" where
  "dt_sub dt delta = dt_add dt (- delta)"

text \<open>\<open>weekday()\<close>: Monday is 0, Sunday is 6.\<close>

definition weekday :: "datetime \<Rightarrow> int" where
  "weekday dt = (ordinal dt + 6) mod 7"

text \<open>Comparison of two naive values: by day, then by time of day.\<close>

definition dt_ge :: "datetime \<Rightarrow> datetime \<Rightarrow> bool" where
  "dt_ge a b = (ordinal a > ordinal b \<or> (ordinal a = ordinal b \<and> micros a \<ge> micros b))"

text \<open>
  Calendar fields of a day number in the proleptic Gregorian calendar, computed the way
  CPython's \<open>_ord2ymd\<close> does.
\<close>

definition DAYS_BEFORE_MONTH :: "int \<Rightarrow> int" where
  "DAYS_BEFORE_MONTH m =
     (if m = 1 then 0 else if m = 2 then 31 else if m = 3 then 59 else if m = 4 then 90
      else if m = 5 then 120 else if m = 6 then 151 else if m = 7 then 181
      else if m = 8 then 212 else if m = 9 then 243 else if m = 10 then 273
      else if m = 11 then 304 else 334)"

definition DAYS_IN_MONTH :: "int \<Rightarrow> int" where
  "DAYS_IN_MONTH m =
     (if m = 2 then 28 else if m = 4 \<or> m = 6 \<or> m = 9 \<or> m = 11 then 30 else 31)"

definition ord2ymd :: "int \<Rightarrow> int \<times> int \<times> int" where
  "ord2ymd n0 =
     (let n = n0 - 1;
          n400 = n div 146097; n = n mod 146097;
          n100 = n div 36524; n = n mod 36524;
          n4 = n div 1461; n = n mod 1461;
          n1 = n div 365; n = n mod 365;
          y = n400 * 400 + 1 + n100 * 100 + n4 * 4 + n1
      in if n1 = 4 \<or> n100 = 4 then (y - 1, 12, 31)
         else
           let leapyear = (n1 = 3 \<and> (n4 \<noteq> 24 \<or> n100 = 3));
               m = (n + 50) div 32;
               preceding = DAYS_BEFORE_MONTH m + (if m > 2 \<and> leapyear then 1 else 0)
           in if preceding > n
              then let m' = m - 1;
                       preceding' = preceding
                         - (DAYS_IN_MONTH m' + (if m' = 2 \<and> leapyear then 1 else 0))
                   in (y, m', n - preceding' + 1)
              else (y, m, n - preceding + 1))"

definition year :: "datetime \<Rightarrow> int" where
  "year dt = fst (ord2ymd (ordinal dt))"

definition month :: "datetime \<Rightarrow> int" where
  "month dt = fst (snd (ord2ymd (ordinal dt)))"

subsection \<open>Dynamic values\<close>

text \<open>
  The values a decoded JSON reply, an argument or a dictionary entry can hold.
  \<open>truthy\<close> is Python's truth test (\<open>if x:\<close>); \<open>PNone\<close> is \<open>None\<close>.
\<close>

datatype pyval =
    PNone
  | PBool bool
  | PNum real
  | PStr string
  | PDatetime datetime
  | PList "pyval list"
  | PDict "(string \<times> pyval) list"

fun truthy :: "pyval \<Rightarrow> bool" where
  "truthy PNone = False"
| "truthy (PBool b) = b"
| "truthy (PNum x) = (x \<noteq> 0)"
| "truthy (PStr s) = (s \<noteq> [])"
| "truthy (PDatetime d) = True"
| "truthy (PList xs) = (xs \<noteq> [])"
| "truthy (PDict kvs) = (kvs \<noteq> [])"

text \<open>\<open>d.get(k)\<close>: \<open>None\<close> for a missing key.\<close>

definition dict_get :: "(string \<times> pyval) list \<Rightarrow> string \<Rightarrow> pyval" where
  "dict_get d k = (case map_of d k of None \<Rightarrow> PNone | Some v \<Rightarrow> v)"

subsection \<open>Exceptions and result messages\<close>

text \<open>An entry of the list \<open>get_upcoming_events\<close> returns: five texts.\<close>

record listed_event =
  le_id :: string
  le_summary :: string
  le_start :: string
  le_location :: string
  le_description :: string

datatype py_exception =
    LibraryError string
  | AttributeError
  | TypeError
  | KeyError
  | IndexError
  | OverflowError

text \<open>
  A message is its text. Where the source interpolates \<open>str(e)\<close> of an exception, the
  message keeps the prefix and the exception; where it formats floats, times or an event
  field into the text, the message keeps the values that are formatted; \<open>Wrapped\<close> is a
  message between a prefix and a suffix.
\<close>

datatype message =
    Text string
  | TextExn string py_exception
  | ExpenseAdded real string
  | Report string string real "(string \<times> real) list option"
  | EventUpdated pyval
  | EventDeleted pyval
  | EventPreview "(string \<times> pyval) list"
  | EventCreated "(string \<times> pyval) list"
  | EventsListing "listed_event list"
  | EventSelected listed_event
  | Wrapped string message string

subsection \<open>String operations\<close>

text \<open>
  A Python \<open>str\<close> is a sequence of code points; here it is the list of its UTF-8 bytes.
  \<open>code_points\<close> cuts the bytes into the encoded code points (the lead byte gives the
  width), and \<open>code_point\<close> decodes one of them.
\<close>

definition utf8_width :: "char \<Rightarrow> nat" where
  "utf8_width b =
     (if (of_char b :: nat) < 192 then 1 else if (of_char b :: nat) < 224 then 2
      else if (of_char b :: nat) < 240 then 3 else 4)"

fun code_points :: "string \<Rightarrow> string list" where
  "code_points [] = []"
| "code_points (b # bs) =
     (b # take (utf8_width b - 1) bs) # code_points (drop (utf8_width b - 1) bs)"

definition code_point :: "string \<Rightarrow> nat" where
  "code_point bs =
     (case map of_char bs of
        [a] \<Rightarrow> a
      | [a, b] \<Rightarrow> (a mod 32) * 64 + b mod 64
      | [a, b, c] \<Rightarrow> (a mod 16) * 4096 + (b mod 64) * 64 + c mod 64
      | [a, b, c, d] \<Rightarrow> (a mod 8) * 262144 + (b mod 64) * 4096 + (c mod 64) * 64 + d mod 64
      | _ \<Rightarrow> 0)"

text \<open>
  \<open>str.isspace\<close>: the ASCII controls and the space, NEL, the no-break space and the
  Unicode space separators.
\<close>

definition is_space :: "string \<Rightarrow> bool" where
  "is_space c =
     (let cp = code_point c
      in cp \<in> set [9, 10, 11, 12, 13, 28, 29, 30, 31, 32, 133, 160, 5760,
                     8232, 8233, 8239, 8287, 12288]
         \<or> (8192 \<le> cp \<and> cp \<le> 8202))"

text \<open>\<open>str.strip()\<close>.\<close>

definition strip :: "string \<Rightarrow> string" where
  "strip s = concat (rev (dropWhile is_space (rev (dropWhile is_space (code_points s)))))"

text \<open>
  \<open>str.lower()\<close> on the letters A to Z. Beyond ASCII, lowering gives code points beyond
  ASCII again, but for the Kelvin sign (k) and the dotted capital I (i and a combining
  dot): no digit and no letter of the text the source looks for comes from it.
\<close>

definition lower_char :: "char \<Rightarrow> char" where
  "lower_char c =
     (if (65::nat) \<le> of_char c \<and> of_char c \<le> (90::nat)
      then char_of (of_char c + (32::nat)) else c)"

definition lower :: "string \<Rightarrow> string" where
  "lower s = map lower_char s"

text \<open>\<open>sub in s\<close>.\<close>

fun contains :: "string \<Rightarrow> string \<Rightarrow> bool" where
  "contains sub [] = (sub = [])"
| "contains sub (c # cs) = (take (length sub) (c # cs) = sub \<or> contains sub cs)"

text \<open>
  The class \<open>\d\<close> and \<open>int()\<close> take every Unicode decimal digit. The digits 0 to 9 are
  fixed; the decimal digits beyond ASCII, with their values, are those of the
  interpreter's Unicode database: a table taken as a parameter.
\<close>

definition digit_value :: "(nat \<Rightarrow> nat option) \<Rightarrow> string \<Rightarrow> nat option" where
  "digit_value unicode_decimal c =
     (let cp = code_point c
      in if 48 \<le> cp \<and> cp \<le> 57 then Some (cp - 48)
         else if cp < 128 then None
         else unicode_decimal cp)"

definition is_digit :: "(nat \<Rightarrow> nat option) \<Rightarrow> string \<Rightarrow> bool" where
  "is_digit unicode_decimal c = (digit_value unicode_decimal c \<noteq> None)"

text \<open>\<open>int(s)\<close> of a run of decimal digits.\<close>

definition int_of_digits :: "(nat \<Rightarrow> nat option) \<Rightarrow> string list \<Rightarrow> int" where
  "int_of_digits unicode_decimal ds =
     foldl (\<lambda>a c. 10 * a + (case digit_value unicode_decimal c of
                                Some v \<Rightarrow> int v | None \<Rightarrow> 0)) 0 ds"

text \<open>\<open>re.search(r'\d+', s)\<close>: the first maximal run of digits.\<close>

definition search_digits :: "(nat \<Rightarrow> nat option) \<Rightarrow> string \<Rightarrow> string list option" where
  "search_digits unicode_decimal s =
     (let ds = takeWhile (is_digit unicode_decimal)
                 (dropWhile (\<lambda>c. \<not> is_digit unicode_decimal c) (code_points s))
      in if ds = [] then None else Some ds)"

text \<open>
  \<open>re.match(r'^(\d+)$', s)\<close>: the whole text is digits, up to one final newline
  (which \<open>$\<close> allows); the group is the digits.
\<close>

definition match_number :: "(nat \<Rightarrow> nat option) \<Rightarrow> string \<Rightarrow> string list option" where
  "match_number unicode_decimal s =
     (let ds = takeWhile (is_digit unicode_decimal) (code_points s);
          rest = dropWhile (is_digit unicode_decimal) (code_points s)
      in if ds \<noteq> [] \<and> (rest = [] \<or> rest = [[CHR 0x0A]]) then Some ds else None)"

text \<open>\<open>s.replace(old, new)\<close> for single characters.\<close>

definition replace_char :: "char \<Rightarrow> char \<Rightarrow> string \<Rightarrow> string" where
  "replace_char old new s = map (\<lambda>c. if c = old then new else c) s"

text \<open>\<open>str(n)\<close> of a natural number.\<close>

fun str_of_nat :: "nat \<Rightarrow> string" where
  "str_of_nat n =
     (if n < 10 then [char_of (48 + n)]
      else str_of_nat (n div 10) @ [char_of (48 + n mod 10)])"

section \<open>config.py\<close>

definition EXPENSE_CATEGORIES :: "string list" where
  "EXPENSE_CATEGORIES =
     [''Alimentari'', ''Trasporti'', ''Casa'', ''Bollette'', ''Salute'',
      ''Intrattenimento'', ''Abbigliamento'', ''Regali'', ''Altro'']"

section \<open>sheets\_manager.py\<close>

text \<open>
  A worksheet row, keyed by the header row. The date cell is a \<open>dd/mm/YYYY\<close> text that
  \<open>pd.to_datetime\<close> reads as a day (kept as its day number), a blank cell, which it
  turns into \<open>NaT\<close>, or a cell on which it raises. After \<open>pd.to_datetime\<close> the column
  holds midnight timestamps, or \<open>NaT\<close> (\<open>None\<close>).
\<close>

datatype date_cell = DateText int | Blank | Malformed

record 'd expense_row =
  Data :: 'd
  Importo :: real
  Categoria :: string
  Descrizione :: string

text \<open>
  The spreadsheet backend: \<open>None\<close> when \<open>get_or_create_expense_sheet()\<close> returns
  \<open>None\<close>; otherwise the rows \<open>get_all_records()\<close> returns and whether a call on the
  worksheet raises.
\<close>

record worksheet =
  ws_records :: "date_cell expense_row list"
  ws_raises :: bool

fun join :: "string \<Rightarrow> string list \<Rightarrow> string" where
  "join sep [] = []"
| "join sep [x] = x"
| "join sep (x # y # ys) = x @ sep @ join sep (y # ys)"

definition invalid_category_message :: message where
  "invalid_category_message =
     Text (''Categoria non valida. Categorie disponibili: '' @ join '', '' EXPENSE_CATEGORIES)"

text \<open>
  The amount handed to \<open>add_expense\<close>: what \<open>context.user_data.get('expense_amount')\<close>
  yields. \<open>float()\<close> of a string is Python's own parser, a parameter: \<open>None\<close> is ValueError.
\<close>

datatype amount_arg = AmountNone | AmountFloat real | AmountStr string

text \<open>
  \<open>add_expense\<close>: the result pair and the rows appended to the worksheet; \<open>Inl\<close> is an
  exception the function does not catch (\<open>float(None)\<close> raises TypeError).
  The stamped date is the day of \<open>now\<close>.
\<close>

definition add_expense ::
  "(string \<Rightarrow> real option) \<Rightarrow> worksheet option \<Rightarrow> datetime \<Rightarrow> amount_arg \<Rightarrow> string option
     \<Rightarrow> string \<Rightarrow> py_exception + ((bool \<times> message) \<times> date_cell expense_row list)" where
  "add_expense pyfloat spreadsheet now amount category description =
     (if (case category of None \<Rightarrow> True | Some c \<Rightarrow> c \<notin> set EXPENSE_CATEGORIES)
      then Inr ((False, invalid_category_message), [])
      else
        case amount of
          AmountNone \<Rightarrow> Inl TypeError
        | _ \<Rightarrow>
          (case (case amount of AmountFloat a \<Rightarrow> Some a | AmountStr s \<Rightarrow> pyfloat s
                   | AmountNone \<Rightarrow> None) of
             None \<Rightarrow> Inr ((False, Text ''L'importo deve essere un numero.''), [])
           | Some a \<Rightarrow>
             (case spreadsheet of
                None \<Rightarrow> Inr ((False, Text ''Impossibile accedere al foglio delle spese.''), [])
              | Some ws \<Rightarrow>
                if ws_raises ws
                then Inr ((False, Text ''Errore nell'aggiunta della spesa.''), [])
                else Inr ((True, ExpenseAdded a (the category)),
                          [\<lparr>Data = DateText (ordinal now), Importo = a,
                            Categoria = the category, Descrizione = description\<rparr>]))))"

text \<open>
  \<open>pd.to_datetime(df['Data'], format='%d/%m/%Y')\<close>: raises on a cell it rejects; a
  blank cell becomes \<open>NaT\<close>.
\<close>

fun to_datetime :: "date_cell expense_row list \<Rightarrow> datetime option expense_row list option" where
  "to_datetime [] = Some []"
| "to_datetime (r # rs) =
     (case Data r of
        Malformed \<Rightarrow> None
      | cell \<Rightarrow>
        (case to_datetime rs of
           None \<Rightarrow> None
         | Some df \<Rightarrow>
           Some (\<lparr>Data = (case cell of
                            DateText d \<Rightarrow> Some \<lparr>ordinal = d, micros = 0, tzinfo = None\<rparr>
                          | _ \<Rightarrow> None),
                  Importo = Importo r, Categoria = Categoria r,
                  Descrizione = Descrizione r\<rparr> # df)))"

text \<open>
  The date filter of \<open>get_expense_report\<close> (the \<open>if period == ...\<close> chain): the rows kept
  and the period text; \<open>None\<close> when the date arithmetic raises. Every comparison with
  \<open>NaT\<close> is false.
\<close>

definition on_date :: "(datetime \<Rightarrow> bool) \<Rightarrow> datetime option expense_row \<Rightarrow> bool" where
  "on_date test r = (case Data r of None \<Rightarrow> False | Some t \<Rightarrow> test t)"

definition filter_period ::
  "datetime \<Rightarrow> string \<Rightarrow> datetime option expense_row list
     \<Rightarrow> (datetime option expense_row list \<times> string) option" where
  "filter_period now period df =
     (if period = ''day'' then
        Some (filter (on_date (\<lambda>t. ordinal t = ordinal now)) df, ''oggi'')
      else if period = ''week'' then
        (case dt_sub now (timedelta_days (weekday now)) of
           None \<Rightarrow> None
         | Some start_of_week \<Rightarrow>
           Some (filter (on_date (\<lambda>t. dt_ge t start_of_week)) df, ''questa settimana''))
      else if period = ''month'' then
        Some (filter (on_date (\<lambda>t. year t = year now))
                (filter (on_date (\<lambda>t. month t = month now)) df), ''questo mese'')
      else if period = ''year'' then
        Some (filter (on_date (\<lambda>t. year t = year now)) df, ''quest'anno'')
      else Some (df, ''totali''))"

text \<open>\<open>df.groupby('Categoria')['Importo'].sum().to_dict()\<close>: one entry per category, sorted.\<close>

definition category_totals :: "datetime option expense_row list \<Rightarrow> (string \<times> real) list" where
  "category_totals df =
     map (\<lambda>c. (c, sum_list (map Importo (filter (\<lambda>r. Categoria r = c) df))))
       (sort (remdups (map Categoria df)))"

definition report_error :: "bool \<times> message" where
  "report_error = (False, Text ''Errore nella generazione del report.'')"

definition get_expense_report ::
  "worksheet option \<Rightarrow> datetime \<Rightarrow> string \<Rightarrow> string option \<Rightarrow> bool \<times> message" where
  "get_expense_report spreadsheet now period category =
     (case spreadsheet of
        None \<Rightarrow> (False, Text ''Impossibile accedere al foglio delle spese.'')
      | Some ws \<Rightarrow>
        if ws_raises ws then report_error
        else if ws_records ws = [] then (True, Text ''Nessuna spesa registrata.'')
        else
          (case to_datetime (ws_records ws) of
             None \<Rightarrow> report_error
           | Some df0 \<Rightarrow>
             (case filter_period now period df0 of
                None \<Rightarrow> report_error
              | Some (df1, period_text) \<Rightarrow>
                let filtering = (case category of None \<Rightarrow> False | Some c \<Rightarrow> c \<noteq> [])
                in if filtering \<and> the category \<notin> set EXPENSE_CATEGORIES
                   then (False, invalid_category_message)
                   else
                     let df2 = (if filtering
                                then filter (\<lambda>r. Categoria r = the category) df1 else df1);
                         category_text =
                           (if filtering
                            then '' nella categoria '' @ [CHR 0x27] @ the category @ [CHR 0x27]
                            else [])
                     in if df2 = []
                        then (True, Text (''Nessuna spesa '' @ period_text @ category_text @ ''.''))
                        else (True, Report period_text category_text
                                      (sum_list (map Importo df2))
                                      (if filtering then None
                                       else Some (category_totals df2))))))"

section \<open>calendar\_manager.py\<close>

text \<open>
  An event resource of the calendar backend. \<open>start.dateTime\<close> and \<open>end.dateTime\<close>
  hold \<open>isoformat()\<close> of a datetime; the model keeps the datetime. A text field that is
  absent is \<open>PNone\<close>.
\<close>

record event_time =
  dateTime :: "datetime option"
  date :: "string option"
  timeZone :: "string option"

record gevent =
  ev_id :: "string option"
  ev_summary :: pyval
  ev_location :: pyval
  ev_description :: pyval
  ev_start :: event_time
  ev_end :: event_time
  ev_reminders_useDefault :: "bool option"

text \<open>
  The calendar backend answers each request (\<open>.execute()\<close>) with a value or raises;
  the adapter's functions return their result and the requests they sent.
\<close>

datatype 'a api = Returned 'a | HttpError string | OtherError

record calendar_service =
  events_get :: "string \<Rightarrow> gevent api"
  events_insert :: "gevent \<Rightarrow> gevent api"
  events_update :: "string \<Rightarrow> gevent \<Rightarrow> gevent api"
  events_delete :: "string \<Rightarrow> unit api"

datatype calendar_request =
    Get string
  | Insert gevent
  | Update string gevent
  | Delete string

definition calendar_unavailable :: message where
  "calendar_unavailable = Text ''Impossibile accedere al servizio Calendar.''"

text \<open>
  \<open>create_event\<close>: \<open>Inl m\<close> is \<open>(False, m)\<close>, \<open>Inr i\<close> is \<open>(True, event.get('id'))\<close>.
  Adding the hour to a start that is no datetime raises TypeError, past the last day
  OverflowError, and \<open>isoformat\<close> of a value that is no datetime AttributeError: all end
  in the last \<open>except\<close>.
\<close>

definition create_event ::
  "calendar_service option \<Rightarrow> pyval \<Rightarrow> pyval \<Rightarrow> pyval \<Rightarrow> pyval \<Rightarrow> pyval
     \<Rightarrow> (message + string option) \<times> calendar_request list" where
  "create_event service summary start_time end_time description location =
     (case service of
        None \<Rightarrow> (Inl calendar_unavailable, [])
      | Some svc \<Rightarrow>
        let unexpected = Inl (Text ''Errore imprevisto nella creazione dell'evento.'');
            end_time1 =
              (if end_time = PNone
               then (case start_time of
                       PDatetime s \<Rightarrow> map_option PDatetime (dt_add s (timedelta_hours 1))
                     | _ \<Rightarrow> None)
               else Some end_time)
        in case (start_time, end_time1) of
             (PDatetime s, Some (PDatetime e)) \<Rightarrow>
               let event = \<lparr>ev_id = None, ev_summary = summary, ev_location = location,
                            ev_description = description,
                            ev_start = \<lparr>dateTime = Some s, date = None,
                                        timeZone = Some ''Europe/Rome''\<rparr>,
                            ev_end = \<lparr>dateTime = Some e, date = None,
                                      timeZone = Some ''Europe/Rome''\<rparr>,
                            ev_reminders_useDefault = Some True\<rparr>
               in (case events_insert svc event of
                     Returned created \<Rightarrow> (Inr (ev_id created), [Insert event])
                   | HttpError t \<Rightarrow>
                       (Inl (TextExn ''Errore nella creazione dell'evento: '' (LibraryError t)),
                        [Insert event])
                   | OtherError \<Rightarrow> (unexpected, [Insert event]))
           | _ \<Rightarrow> (unexpected, []))"

text \<open>
  \<open>update_event\<close>: fetches the event, overwrites the fields that pass the source's tests
  (\<open>if summary:\<close>, \<open>is not None\<close> for description and location, \<open>if start_time:\<close>,
  \<open>if end_time:\<close>) and sends the event back.
\<close>

definition set_time :: "pyval \<Rightarrow> event_time \<Rightarrow> event_time option" where
  "set_time t slot =
     (if truthy t
      then (case t of PDatetime d \<Rightarrow> Some (slot\<lparr>dateTime := Some d\<rparr>) | _ \<Rightarrow> None)
      else Some slot)"

definition update_event ::
  "calendar_service option \<Rightarrow> string \<Rightarrow> pyval \<Rightarrow> pyval \<Rightarrow> pyval \<Rightarrow> pyval \<Rightarrow> pyval
     \<Rightarrow> (bool \<times> message) \<times> calendar_request list" where
  "update_event service event_id summary start_time end_time description location =
     (case service of
        None \<Rightarrow> ((False, calendar_unavailable), [])
      | Some svc \<Rightarrow>
        let unexpected = (False, Text ''Errore imprevisto nell'aggiornamento dell'evento.'');
            http = (\<lambda>t. (False, TextExn ''Errore nell'aggiornamento dell'evento: ''
                                   (LibraryError t)))
        in case events_get svc event_id of
             HttpError t \<Rightarrow> (http t, [Get event_id])
           | OtherError \<Rightarrow> (unexpected, [Get event_id])
           | Returned event0 \<Rightarrow>
             let event1 = (if truthy summary then event0\<lparr>ev_summary := summary\<rparr> else event0);
                 event2 = (if description \<noteq> PNone
                           then event1\<lparr>ev_description := description\<rparr> else event1);
                 event3 = (if location \<noteq> PNone
                           then event2\<lparr>ev_location := location\<rparr> else event2)
             in (case set_time start_time (ev_start event3) of
                   None \<Rightarrow> (unexpected, [Get event_id])
                 | Some start1 \<Rightarrow>
                   (case set_time end_time (ev_end event3) of
                      None \<Rightarrow> (unexpected, [Get event_id])
                    | Some end1 \<Rightarrow>
                      let event = event3\<lparr>ev_start := start1, ev_end := end1\<rparr>;
                          sent = [Get event_id, Update event_id event]
                      in (case events_update svc event_id event of
                            Returned updated_event \<Rightarrow>
                              ((True, EventUpdated (ev_summary updated_event)), sent)
                          | HttpError t \<Rightarrow> (http t, sent)
                          | OtherError \<Rightarrow> (unexpected, sent)))))"

definition delete_event ::
  "calendar_service option \<Rightarrow> string \<Rightarrow> (bool \<times> message) \<times> calendar_request list" where
  "delete_event service event_id =
     (case service of
        None \<Rightarrow> ((False, calendar_unavailable), [])
      | Some svc \<Rightarrow>
        let unexpected = (False, Text ''Errore imprevisto nell'eliminazione dell'evento.'');
            http = (\<lambda>t. (False, TextExn ''Errore nell'eliminazione dell'evento: ''
                                   (LibraryError t)))
        in case events_get svc event_id of
             HttpError t \<Rightarrow> (http t, [Get event_id])
           | OtherError \<Rightarrow> (unexpected, [Get event_id])
           | Returned event \<Rightarrow>
             let event_summary = (if ev_summary event = PNone then PStr ''Evento sconosciuto''
                                  else ev_summary event);
                 sent = [Get event_id, Delete event_id]
             in (case events_delete svc event_id of
                   Returned u \<Rightarrow> ((True, EventDeleted event_summary), sent)
                 | HttpError t \<Rightarrow> (http t, sent)
                 | OtherError \<Rightarrow> (unexpected, sent)))"

section \<open>nlp\_processor.py\<close>

text \<open>
  The language-model backend. A request is the task (its fixed system message), the
  text interpolated into that message, and the user's text; the answer is the reply's
  content (\<open>None\<close> when the reply has none), or an exception. \<open>get_openai_client()\<close>
  gives \<open>None\<close> without an API key. Each function returns its result and the
  requests it sent.
\<close>

datatype llm_request =
    ExtractEvent string
  | ExtractUpdate string
  | ResolveDeletion string string

type_synonym openai_client = "llm_request \<Rightarrow> py_exception + string option"

text \<open>
  Library calls taken as parameters: \<open>json.loads\<close> (\<open>None\<close> is JSONDecodeError),
  \<open>rome_tz.localize(parser.parse(v))\<close> (\<open>Inl\<close> is the exception raised), and the table
  of the decimal digits beyond ASCII.
\<close>

record pylib =
  json_loads :: "string \<Rightarrow> pyval option"
  parse_rome :: "pyval \<Rightarrow> py_exception + datetime"
  unicode_decimal :: "nat \<Rightarrow> nat option"

definition openai_unavailable :: message where
  "openai_unavailable = Text ''Impossibile accedere al servizio OpenAI. Verifica la chiave API.''"

definition reply_unparsable :: message where
  "reply_unparsable =
     Text (''Errore nel parsing della risposta. Riprova con una richiesta pi'' @ u_grave
           @ '' chiara.'')"

definition request_failed :: "py_exception \<Rightarrow> message" where
  "request_failed e = TextExn ''Errore nell'elaborazione della richiesta: '' e"

text \<open>
  The part of \<open>parse_event_request\<close> after the backend call: decoding and checking the
  reply. A decoded value that is no object has no \<open>get\<close> (AttributeError); the
  defaulted end past the last day raises OverflowError; both reach the outer \<open>except\<close>.
\<close>

definition parse_event_reply :: "pylib \<Rightarrow> string \<Rightarrow> message + (string \<times> pyval) list" where
  "parse_event_reply lib content =
     (case json_loads lib content of
        None \<Rightarrow> Inl reply_unparsable
      | Some (PDict event_data) \<Rightarrow>
          if \<not> truthy (dict_get event_data ''summary'')
          then Inl (Text (''Non '' @ e_grave
                          @ '' stato possibile identificare il titolo dell'evento.''))
          else if \<not> truthy (dict_get event_data ''start_time'')
          then Inl (Text (''Non '' @ e_grave
                          @ '' stato possibile identificare la data e l'ora dell'evento.''))
          else
            (case parse_rome lib (dict_get event_data ''start_time'') of
               Inl e \<Rightarrow> Inl (TextExn ''Errore nel parsing della data di inizio: '' e)
             | Inr start_time \<Rightarrow>
               let event_data1 = AList.update ''start_time'' (PDatetime start_time) event_data;
                   default_end = dt_add start_time (timedelta_hours 1);
                   end_time =
                     (if truthy (dict_get event_data1 ''end_time'')
                      then (case parse_rome lib (dict_get event_data1 ''end_time'') of
                              Inr e \<Rightarrow> Some e
                            | Inl e \<Rightarrow> default_end)
                      else default_end)
               in (case end_time of
                     None \<Rightarrow> Inl (request_failed OverflowError)
                   | Some e \<Rightarrow> Inr (AList.update ''end_time'' (PDatetime e) event_data1)))
      | Some other \<Rightarrow> Inl (request_failed AttributeError))"

definition parse_event_request ::
  "pylib \<Rightarrow> openai_client option \<Rightarrow> string
     \<Rightarrow> (message + (string \<times> pyval) list) \<times> llm_request list" where
  "parse_event_request lib client text =
     (case client of
        None \<Rightarrow> (Inl openai_unavailable, [])
      | Some chat \<Rightarrow>
        (case chat (ExtractEvent text) of
           Inl e \<Rightarrow> (Inl (request_failed e), [ExtractEvent text])
         | Inr None \<Rightarrow> (Inl (request_failed AttributeError), [ExtractEvent text])
         | Inr (Some content) \<Rightarrow> (parse_event_reply lib (strip content), [ExtractEvent text])))"

definition nothing_to_change :: message where
  "nothing_to_change =
     Text (''Non '' @ e_grave @ '' stato possibile identificare alcuna ''
           @ ''modifica da apportare all'evento.'')"

text \<open>The part of \<open>parse_event_update_request\<close> after the backend call.\<close>

definition parse_update_reply ::
  "pylib \<Rightarrow> string \<Rightarrow> string \<Rightarrow> message + (string \<times> pyval) list" where
  "parse_update_reply lib content event_id =
     (case json_loads lib content of
        None \<Rightarrow> Inl reply_unparsable
      | Some (PDict update_data) \<Rightarrow>
          if list_all (\<lambda>kv. snd kv = PNone) update_data
          then Inl nothing_to_change
          else
            (case (if truthy (dict_get update_data ''start_time'')
                   then (case parse_rome lib (dict_get update_data ''start_time'') of
                           Inl e \<Rightarrow> Inl e
                         | Inr start_time \<Rightarrow>
                             Inr (AList.update ''start_time'' (PDatetime start_time)
                                    update_data))
                   else Inr update_data) of
               Inl e \<Rightarrow> Inl (TextExn ''Errore nel parsing della nuova data di inizio: '' e)
             | Inr update_data1 \<Rightarrow>
               let update_data2 =
                     (if truthy (dict_get update_data1 ''end_time'')
                      then (case parse_rome lib (dict_get update_data1 ''end_time'') of
                              Inr end_time \<Rightarrow>
                                AList.update ''end_time'' (PDatetime end_time) update_data1
                            | Inl e \<Rightarrow> AList.update ''end_time'' PNone update_data1)
                      else update_data1)
               in Inr (AList.update ''event_id'' (PStr event_id) update_data2))
      | Some other \<Rightarrow> Inl (request_failed AttributeError))"

definition parse_event_update_request ::
  "pylib \<Rightarrow> openai_client option \<Rightarrow> string \<Rightarrow> string
     \<Rightarrow> (message + (string \<times> pyval) list) \<times> llm_request list" where
  "parse_event_update_request lib client text event_id =
     (case client of
        None \<Rightarrow> (Inl openai_unavailable, [])
      | Some chat \<Rightarrow>
        (case chat (ExtractUpdate text) of
           Inl e \<Rightarrow> (Inl (request_failed e), [ExtractUpdate text])
         | Inr None \<Rightarrow> (Inl (request_failed AttributeError), [ExtractUpdate text])
         | Inr (Some content) \<Rightarrow>
             (parse_update_reply lib (strip content) event_id, [ExtractUpdate text])))"

text \<open>
  \<open>parse_event_deletion_request\<close>: the \<open>events\<close> argument is a list, or the text
  \<open>get_upcoming_events\<close> returns instead of one.
\<close>

datatype events_arg = EventsText string | Events "listed_event list"

fun events_text :: "nat \<Rightarrow> listed_event list \<Rightarrow> string" where
  "events_text i [] = []"
| "events_text i (event # rest) =
     str_of_nat i @ ''. '' @ le_summary event @ '' - '' @ le_start event @ [CHR 0x0A]
       @ events_text (Suc i) rest"

definition not_identified :: message where
  "not_identified =
     Text (''Non '' @ e_grave @ '' stato possibile identificare quale evento eliminare. ''
           @ ''Prova a essere pi'' @ u_grave @ '' specifico.'')"

text \<open>\<open>xs[i]\<close> for an index that is not negative: IndexError past the end.\<close>

definition list_index :: "'a list \<Rightarrow> int \<Rightarrow> py_exception + 'a" where
  "list_index xs i =
     (if 0 \<le> i \<and> i < int (length xs) then Inr (xs ! nat i) else Inl IndexError)"

definition parse_event_deletion_request ::
  "pylib \<Rightarrow> openai_client option \<Rightarrow> string \<Rightarrow> events_arg
     \<Rightarrow> (message + string) \<times> llm_request list" where
  "parse_event_deletion_request lib client text events =
     (case client of
        None \<Rightarrow> (Inl openai_unavailable, [])
      | Some chat \<Rightarrow>
        (case events of
           EventsText error_message \<Rightarrow> (Inl (Text error_message), [])
         | Events evs \<Rightarrow>
           if evs = [] then (Inl (Text ''Non ci sono eventi da eliminare.''), [])
           else
             let request = ResolveDeletion (events_text 1 evs) text
             in (case chat request of
                   Inl e \<Rightarrow> (Inl (request_failed e), [request])
                 | Inr None \<Rightarrow> (Inl (request_failed AttributeError), [request])
                 | Inr (Some raw) \<Rightarrow>
                   let content = lower (strip raw)
                   in if contains ''non trovato'' content
                      then (Inl not_identified, [request])
                      else
                        (case search_digits (unicode_decimal lib) content of
                           None \<Rightarrow> (Inl not_identified, [request])
                         | Some ds \<Rightarrow>
                           let event_index = int_of_digits (unicode_decimal lib) ds - 1
                           in if 0 \<le> event_index \<and> event_index < int (length evs)
                              then (case list_index evs event_index of
                                      Inr event \<Rightarrow> (Inr (le_id event), [request])
                                    | Inl e \<Rightarrow> (Inl (request_failed e), [request]))
                              else (Inl (Text ''Numero evento non valido.''), [request])))))"

section \<open>main.py: the conversation handlers\<close>

text \<open>
  \<open>context.user_data\<close> is a dictionary from keys to the values the handlers store:
  the amount, texts, the extracted event data, the listed events, the selected event.
\<close>

datatype udval =
    UFloat real
  | UStr string
  | UDict "(string \<times> pyval) list"
  | UEvents "listed_event list"
  | UEvent listed_event

type_synonym user_data = "(string \<times> udval) list"

text \<open>
  An incoming update, as the handlers' filters classify it: a command with its
  arguments, a text that is no command, or the data of a pressed button.
\<close>

datatype update = Command string "string list" | TextMessage string | CallbackQuery string

text \<open>
  What a handler does besides changing \<open>user_data\<close>, in order: a message sent
  (\<open>reply_text\<close>) or edited (\<open>edit_message_text\<close>), with the callback data of the
  buttons under it; the removal of the waiting message; the rows, requests and backend
  calls of the adapters.
\<close>

datatype effect =
    Reply message "string list"
  | Edit message "string list"
  | RemoveWait
  | SheetAppend "date_cell expense_row"
  | Calendar calendar_request
  | Backend llm_request

text \<open>
  The result of a handler: its return value (\<open>Inl\<close> when it raises), \<open>user_data\<close>
  afterwards, and its effects.
\<close>

record outcome =
  returned :: "py_exception + int"
  scratch :: user_data
  effects :: "effect list"

text \<open>
  What the handlers reach outside: Python's \<open>float\<close>, the library parameters, the three
  backends, the clock, and the result of \<open>calendar_manager.get_upcoming_events(max_results=10)\<close>.
\<close>

record world =
  w_float :: "string \<Rightarrow> real option"
  w_lib :: pylib
  w_spreadsheet :: "worksheet option"
  w_calendar :: "calendar_service option"
  w_openai :: "openai_client option"
  w_now :: datetime
  w_upcoming :: "bool \<times> events_arg"

definition EXPENSE_AMOUNT :: int where "EXPENSE_AMOUNT = 0"
definition EXPENSE_CATEGORY :: int where "EXPENSE_CATEGORY = 1"
definition EXPENSE_DESCRIPTION :: int where "EXPENSE_DESCRIPTION = 2"
definition CALENDAR_EVENT_DESCRIPTION :: int where "CALENDAR_EVENT_DESCRIPTION = 0"
definition CALENDAR_EVENT_CONFIRMATION :: int where "CALENDAR_EVENT_CONFIRMATION = 1"
definition CALENDAR_EVENT_SELECTION :: int where "CALENDAR_EVENT_SELECTION = 0"
definition CALENDAR_EVENT_UPDATE :: int where "CALENDAR_EVENT_UPDATE = 1"
definition END :: int where "END = - 1"

definition check_mark :: string where
  "check_mark = [CHR 0xE2, CHR 0x9C, CHR 0x85]"

definition cross_mark :: string where
  "cross_mark = [CHR 0xE2, CHR 0x9D, CHR 0x8C]"

definition wait_processing :: effect where
  "wait_processing = Reply (Text ''Sto elaborando la tua richiesta...'') []"

definition wait_fetching :: effect where
  "wait_fetching = Reply (Text ''Sto recuperando gli eventi...'') []"

text \<open>\<open>s.replace(sub, "")\<close> for a non-empty \<open>sub\<close>: every occurrence, left to right.\<close>

function remove_sub :: "string \<Rightarrow> string \<Rightarrow> string" where
  "remove_sub sub [] = []"
| "remove_sub sub (c # cs) =
     (if sub \<noteq> [] \<and> take (length sub) (c # cs) = sub
      then remove_sub sub (drop (length sub) (c # cs))
      else c # remove_sub sub cs)"
  by pat_completeness auto
termination
  by (relation "measure (\<lambda>(sub, s). length s)") auto

subsection \<open>Adding an expense\<close>

definition add_expense_start :: "user_data \<Rightarrow> outcome" where
  "add_expense_start ud =
     \<lparr>returned = Inr EXPENSE_AMOUNT, scratch = ud,
      effects = [Reply (Text ''Inserisci l'importo della spesa:'') []]\<rparr>"

definition add_expense_amount :: "world \<Rightarrow> user_data \<Rightarrow> string \<Rightarrow> outcome" where
  "add_expense_amount w ud text =
     (case w_float w (replace_char CHR '','' CHR ''.'' text) of
        Some amount \<Rightarrow>
          \<lparr>returned = Inr EXPENSE_CATEGORY,
           scratch = AList.update ''expense_amount'' (UFloat amount) ud,
           effects = [Reply (Text ''Seleziona la categoria della spesa:'')
                        (map (\<lambda>category. ''cat_'' @ category) EXPENSE_CATEGORIES)]\<rparr>
      | None \<Rightarrow>
          \<lparr>returned = Inr EXPENSE_AMOUNT, scratch = ud,
           effects = [Reply (Text ''L'importo deve essere un numero. Riprova:'') []]\<rparr>)"

definition add_expense_category :: "user_data \<Rightarrow> string \<Rightarrow> outcome" where
  "add_expense_category ud data =
     (let category = remove_sub ''cat_'' data
      in \<lparr>returned = Inr EXPENSE_DESCRIPTION,
          scratch = AList.update ''expense_category'' (UStr category) ud,
          effects = [Edit (Text (''Categoria selezionata: '' @ category @ [CHR 0x0A, CHR 0x0A]
                       @ ''Inserisci una descrizione per la spesa ''
                       @ ''(o invia /skip per saltare):'')) []]\<rparr>)"

text \<open>
  \<open>add_expense_end\<close>: the stored amount, category and description go to
  \<open>sheets_manager.add_expense\<close>; its message is sent, \<open>user_data\<close> is cleared and the
  conversation ends. \<open>float\<close> of a missing amount raises out of the handler.
\<close>

definition add_expense_end :: "world \<Rightarrow> user_data \<Rightarrow> outcome" where
  "add_expense_end w ud =
     (let amount = (case map_of ud ''expense_amount'' of
                      Some (UFloat a) \<Rightarrow> AmountFloat a
                    | Some (UStr s) \<Rightarrow> AmountStr s
                    | _ \<Rightarrow> AmountNone);
          category = (case map_of ud ''expense_category'' of
                        Some (UStr c) \<Rightarrow> Some c
                      | _ \<Rightarrow> None);
          description = (case map_of ud ''expense_description'' of
                           Some (UStr d) \<Rightarrow> d
                         | _ \<Rightarrow> [])
      in case add_expense (w_float w) (w_spreadsheet w) (w_now w) amount category description of
           Inl e \<Rightarrow> \<lparr>returned = Inl e, scratch = ud, effects = []\<rparr>
         | Inr ((success, message), rows) \<Rightarrow>
             \<lparr>returned = Inr END, scratch = [],
              effects = map SheetAppend rows @ [Reply message []]\<rparr>)"

definition skip_expense_description :: "world \<Rightarrow> user_data \<Rightarrow> outcome" where
  "skip_expense_description w ud =
     add_expense_end w (AList.update ''expense_description'' (UStr []) ud)"

definition add_expense_description :: "world \<Rightarrow> user_data \<Rightarrow> string \<Rightarrow> outcome" where
  "add_expense_description w ud text =
     add_expense_end w (AList.update ''expense_description'' (UStr text) ud)"

definition cancel :: "user_data \<Rightarrow> outcome" where
  "cancel ud =
     \<lparr>returned = Inr END, scratch = [], effects = [Reply (Text ''Operazione annullata.'') []]\<rparr>"

subsection \<open>Adding an event\<close>

definition add_event_start :: "user_data \<Rightarrow> outcome" where
  "add_event_start ud =
     \<lparr>returned = Inr CALENDAR_EVENT_DESCRIPTION, scratch = ud,
      effects = [Reply (Text (''Descrivi l'evento che vuoi aggiungere al calendario.''
                   @ [CHR 0x0A]
                   @ ''Esempio: 'Riunione di lavoro domani alle 15:00 in ufficio''
                   @ [CHR 0x27])) []]\<rparr>"

text \<open>
  \<open>add_event_description\<close>: the preview formats the summary and both times of the
  extracted data (\<open>strftime\<close>), which raises when a key is missing or a time is no
  datetime.
\<close>

definition add_event_description :: "world \<Rightarrow> user_data \<Rightarrow> string \<Rightarrow> outcome" where
  "add_event_description w ud text =
     (let ud1 = AList.update ''event_text'' (UStr text) ud;
          (result, requests) = parse_event_request (w_lib w) (w_openai w) text;
          before = wait_processing # map Backend requests @ [RemoveWait]
      in case result of
           Inl error \<Rightarrow>
             \<lparr>returned = Inr CALENDAR_EVENT_DESCRIPTION, scratch = ud1,
              effects = before @
                [Reply (Wrapped ''Errore: '' error
                   ([CHR 0x0A, CHR 0x0A] @ ''Riprova con una descrizione pi'' @ u_grave
                    @ '' chiara o usa /cancel per annullare.'')) []]\<rparr>
         | Inr event_data \<Rightarrow>
             let ud2 = AList.update ''event_data'' (UDict event_data) ud1
             in case (map_of event_data ''summary'', map_of event_data ''start_time'',
                      map_of event_data ''end_time'') of
                  (Some summary, Some (PDatetime s), Some (PDatetime e)) \<Rightarrow>
                    \<lparr>returned = Inr CALENDAR_EVENT_CONFIRMATION, scratch = ud2,
                     effects = before @
                       [Reply (EventPreview event_data) [''event_confirm'', ''event_cancel'']]\<rparr>
                | (None, x, y) \<Rightarrow> \<lparr>returned = Inl KeyError, scratch = ud2, effects = before\<rparr>
                | (Some summary, None, y) \<Rightarrow>
                    \<lparr>returned = Inl KeyError, scratch = ud2, effects = before\<rparr>
                | (Some summary, Some (PDatetime s), None) \<Rightarrow>
                    \<lparr>returned = Inl KeyError, scratch = ud2, effects = before\<rparr>
                | _ \<Rightarrow> \<lparr>returned = Inl AttributeError, scratch = ud2, effects = before\<rparr>)"

text \<open>\<open>d.get(k, '')\<close>.\<close>

definition dict_get_default :: "(string \<times> pyval) list \<Rightarrow> string \<Rightarrow> pyval" where
  "dict_get_default d k = (case map_of d k of None \<Rightarrow> PStr [] | Some v \<Rightarrow> v)"

definition add_event_confirmation :: "world \<Rightarrow> user_data \<Rightarrow> string \<Rightarrow> outcome" where
  "add_event_confirmation w ud data =
     (if data = ''event_cancel''
      then \<lparr>returned = Inr END, scratch = [],
            effects = [Edit (Text ''Creazione evento annullata.'') []]\<rparr>
      else
        case map_of ud ''event_data'' of
          Some (UDict event_data) \<Rightarrow>
            (case (map_of event_data ''summary'', map_of event_data ''start_time'',
                   map_of event_data ''end_time'') of
               (Some summary, Some start_time, Some end_time) \<Rightarrow>
                 let (result, requests) =
                       create_event (w_calendar w) summary start_time end_time
                         (dict_get_default event_data ''description'')
                         (dict_get_default event_data ''location'');
                     sent = map Calendar requests
                 in (case result of
                       Inr event_id \<Rightarrow>
                         (case start_time of
                            PDatetime s \<Rightarrow>
                              \<lparr>returned = Inr END, scratch = [],
                               effects = sent @ [Edit (EventCreated event_data) []]\<rparr>
                          | _ \<Rightarrow>
                              \<lparr>returned = Inl AttributeError, scratch = ud,
                               effects = sent\<rparr>)
                     | Inl error \<Rightarrow>
                         \<lparr>returned = Inr END, scratch = [],
                          effects = sent @
                            [Edit (Wrapped (cross_mark @ '' Errore nella creazione dell'evento: '')
                                     error []) []]\<rparr>)
             | _ \<Rightarrow> \<lparr>returned = Inl KeyError, scratch = ud, effects = []\<rparr>)
        | _ \<Rightarrow> \<lparr>returned = Inl TypeError, scratch = ud, effects = []\<rparr>)"

subsection \<open>Updating an event\<close>

definition events_of :: "user_data \<Rightarrow> listed_event list" where
  "events_of ud = (case map_of ud ''events'' of Some (UEvents evs) \<Rightarrow> evs | _ \<Rightarrow> [])"

definition update_event_start :: "world \<Rightarrow> user_data \<Rightarrow> outcome" where
  "update_event_start w ud =
     (case w_upcoming w of
        (False, EventsText error) \<Rightarrow>
          \<lparr>returned = Inr END, scratch = ud,
           effects = [wait_fetching, RemoveWait, Reply (Text (''Errore: '' @ error)) []]\<rparr>
      | (True, EventsText none) \<Rightarrow>
          \<lparr>returned = Inr END, scratch = ud,
           effects = [wait_fetching, RemoveWait, Reply (Text none) []]\<rparr>
      | (True, Events evs) \<Rightarrow>
          \<lparr>returned = Inr CALENDAR_EVENT_SELECTION,
           scratch = AList.update ''events'' (UEvents evs) ud,
           effects = [wait_fetching, RemoveWait,
                      Reply (Text ''Seleziona l'evento da modificare:'')
                        (map (\<lambda>event. ''event_'' @ le_id event) evs @ [''event_cancel''])]\<rparr>
      | (False, Events evs) \<Rightarrow>
          \<lparr>returned = Inr END, scratch = ud,
           effects = [wait_fetching, RemoveWait,
                      Reply (Wrapped ''Errore: '' (EventsListing evs) []) []]\<rparr>)"

definition update_event_selection :: "user_data \<Rightarrow> string \<Rightarrow> outcome" where
  "update_event_selection ud data =
     (if data = ''event_cancel''
      then \<lparr>returned = Inr END, scratch = [],
            effects = [Edit (Text ''Modifica evento annullata.'') []]\<rparr>
      else
        let event_id = remove_sub ''event_'' data;
            ud1 = AList.update ''event_id'' (UStr event_id) ud
        in case find (\<lambda>event. le_id event = event_id) (events_of ud1) of
             None \<Rightarrow>
               \<lparr>returned = Inr END, scratch = ud1,
                effects = [Edit (Text ''Evento non trovato. Riprova.'') []]\<rparr>
           | Some selected_event \<Rightarrow>
               \<lparr>returned = Inr CALENDAR_EVENT_UPDATE,
                scratch = AList.update ''selected_event'' (UEvent selected_event) ud1,
                effects = [Edit (EventSelected selected_event) []]\<rparr>)"

definition update_event_changes :: "world \<Rightarrow> user_data \<Rightarrow> string \<Rightarrow> outcome" where
  "update_event_changes w ud text =
     (case (case map_of ud ''event_id'' of
              Some (UStr i) \<Rightarrow> (if i = [] then None else Some i)
            | _ \<Rightarrow> None) of
        None \<Rightarrow>
          \<lparr>returned = Inr END, scratch = ud,
           effects = [Reply (Text ''Errore: ID evento mancante. Riprova.'') []]\<rparr>
      | Some event_id \<Rightarrow>
          let (result, requests) =
                parse_event_update_request (w_lib w) (w_openai w) text event_id;
              before = wait_processing # map Backend requests @ [RemoveWait]
          in case result of
               Inl error \<Rightarrow>
                 \<lparr>returned = Inr END, scratch = [],
                  effects = before @ [Reply (Wrapped ''Errore: '' error []) []]\<rparr>
             | Inr directive \<Rightarrow>
                 (case map_of directive ''event_id'' of
                    Some (PStr target) \<Rightarrow>
                      let ((success, message), sent) =
                            update_event (w_calendar w) target
                              (dict_get directive ''summary'')
                              (dict_get directive ''start_time'')
                              (dict_get directive ''end_time'')
                              (dict_get directive ''description'')
                              (dict_get directive ''location'')
                      in \<lparr>returned = Inr END, scratch = [],
                          effects = before @ map Calendar sent @
                            [Reply (Wrapped ((if success then check_mark else cross_mark)
                                             @ '' '') message []) []]\<rparr>
                  | _ \<Rightarrow> \<lparr>returned = Inl KeyError, scratch = ud, effects = before\<rparr>))"

subsection \<open>Deleting an event\<close>

definition delete_event_start :: "world \<Rightarrow> user_data \<Rightarrow> outcome" where
  "delete_event_start w ud =
     (case w_upcoming w of
        (False, EventsText error) \<Rightarrow>
          \<lparr>returned = Inr END, scratch = ud,
           effects = [wait_fetching, RemoveWait, Reply (Text (''Errore: '' @ error)) []]\<rparr>
      | (True, EventsText none) \<Rightarrow>
          \<lparr>returned = Inr END, scratch = ud,
           effects = [wait_fetching, RemoveWait, Reply (Text none) []]\<rparr>
      | (True, Events evs) \<Rightarrow>
          \<lparr>returned = Inr CALENDAR_EVENT_SELECTION,
           scratch = AList.update ''events'' (UEvents evs) ud,
           effects = [wait_fetching, RemoveWait, Reply (EventsListing evs) []]\<rparr>
      | (False, Events evs) \<Rightarrow>
          \<lparr>returned = Inr END, scratch = ud,
           effects = [wait_fetching, RemoveWait,
                      Reply (Wrapped ''Errore: '' (EventsListing evs) []) []]\<rparr>)"

definition delete_event_confirmation :: "world \<Rightarrow> user_data \<Rightarrow> string \<Rightarrow> outcome" where
  "delete_event_confirmation w ud event_id =
     (let ((success, message), sent) = delete_event (w_calendar w) event_id
      in \<lparr>returned = Inr END, scratch = [],
          effects = Reply (Text ''Sto cancellando l'evento...'') []
            # map Calendar sent @
            [RemoveWait,
             Reply (Wrapped ((if success then check_mark else cross_mark) @ '' '')
                      message []) []]\<rparr>)"

text \<open>
  \<open>delete_event_selection\<close>: an id of a listed event, then a 1-based number, then the
  extractor. The effects of the extractor's call come before those of the deletion.
\<close>

definition delete_event_selection :: "world \<Rightarrow> user_data \<Rightarrow> string \<Rightarrow> outcome" where
  "delete_event_selection w ud text =
     (let events = events_of ud
      in case find (\<lambda>event. le_id event = text) events of
           Some event \<Rightarrow> delete_event_confirmation w ud (le_id event)
         | None \<Rightarrow>
           let index = (case match_number (unicode_decimal (w_lib w)) text of
                          Some ds \<Rightarrow>
                            Some (int_of_digits (unicode_decimal (w_lib w)) ds - 1)
                        | None \<Rightarrow> None)
           in if (case index of
                    Some i \<Rightarrow> 0 \<le> i \<and> i < int (length events)
                  | None \<Rightarrow> False)
              then (case list_index events (the index) of
                      Inr event \<Rightarrow> delete_event_confirmation w ud (le_id event)
                    | Inl e \<Rightarrow> \<lparr>returned = Inl e, scratch = ud, effects = []\<rparr>)
              else
                let (result, requests) =
                      parse_event_deletion_request (w_lib w) (w_openai w) text
                        (Events events);
                    before = wait_processing # map Backend requests @ [RemoveWait]
                in case result of
                     Inl error \<Rightarrow>
                       \<lparr>returned = Inr CALENDAR_EVENT_SELECTION, scratch = ud,
                        effects = before @
                          [Reply (Wrapped ''Errore: '' error
                             ([CHR 0x0A, CHR 0x0A]
                              @ ''Riprova o invia /cancel per annullare.'')) []]\<rparr>
                   | Inr event_id \<Rightarrow>
                       let out = delete_event_confirmation w ud event_id
                       in out\<lparr>effects := before @ effects out\<rparr>)"

subsection \<open>The four conversations\<close>

text \<open>
  A \<open>ConversationHandler\<close>: with no conversation running only the entry command is
  handled; in a state, the first handler of that state whose filter matches, otherwise
  the fallback \<open>/cancel\<close>; an update no handler matches is ignored (\<open>None\<close>).
\<close>

datatype flow = ExpenseFlow | EventFlow | UpdateEventFlow | DeleteEventFlow

definition starts_with :: "string \<Rightarrow> string \<Rightarrow> bool" where
  "starts_with p s = (take (length p) s = p)"

definition entry_point :: "world \<Rightarrow> flow \<Rightarrow> user_data \<Rightarrow> update \<Rightarrow> outcome option" where
  "entry_point w fl ud u =
     (case (fl, u) of
        (ExpenseFlow, Command name args) \<Rightarrow>
          if name = ''spesa'' then Some (add_expense_start ud) else None
      | (EventFlow, Command name args) \<Rightarrow>
          if name = ''evento'' then Some (add_event_start ud) else None
      | (UpdateEventFlow, Command name args) \<Rightarrow>
          if name = ''modifica_evento'' then Some (update_event_start w ud) else None
      | (DeleteEventFlow, Command name args) \<Rightarrow>
          if name = ''cancella_evento'' then Some (delete_event_start w ud) else None
      | _ \<Rightarrow> None)"

definition state_handler ::
  "world \<Rightarrow> flow \<Rightarrow> int \<Rightarrow> user_data \<Rightarrow> update \<Rightarrow> outcome option" where
  "state_handler w fl st ud u =
     (case fl of
        ExpenseFlow \<Rightarrow>
          if st = EXPENSE_AMOUNT then
            (case u of TextMessage t \<Rightarrow> Some (add_expense_amount w ud t) | _ \<Rightarrow> None)
          else if st = EXPENSE_CATEGORY then
            (case u of
               CallbackQuery d \<Rightarrow>
                 if starts_with ''cat_'' d then Some (add_expense_category ud d) else None
             | _ \<Rightarrow> None)
          else if st = EXPENSE_DESCRIPTION then
            (case u of
               Command name args \<Rightarrow>
                 if name = ''skip'' then Some (skip_expense_description w ud) else None
             | TextMessage t \<Rightarrow> Some (add_expense_description w ud t)
             | _ \<Rightarrow> None)
          else None
      | EventFlow \<Rightarrow>
          if st = CALENDAR_EVENT_DESCRIPTION then
            (case u of TextMessage t \<Rightarrow> Some (add_event_description w ud t) | _ \<Rightarrow> None)
          else if st = CALENDAR_EVENT_CONFIRMATION then
            (case u of
               CallbackQuery d \<Rightarrow>
                 if starts_with ''event_'' d then Some (add_event_confirmation w ud d) else None
             | _ \<Rightarrow> None)
          else None
      | UpdateEventFlow \<Rightarrow>
          if st = CALENDAR_EVENT_SELECTION then
            (case u of
               CallbackQuery d \<Rightarrow>
                 if starts_with ''event_'' d then Some (update_event_selection ud d) else None
             | _ \<Rightarrow> None)
          else if st = CALENDAR_EVENT_UPDATE then
            (case u of TextMessage t \<Rightarrow> Some (update_event_changes w ud t) | _ \<Rightarrow> None)
          else None
      | DeleteEventFlow \<Rightarrow>
          if st = CALENDAR_EVENT_SELECTION then
            (case u of TextMessage t \<Rightarrow> Some (delete_event_selection w ud t) | _ \<Rightarrow> None)
          else None)"

definition fallback :: "user_data \<Rightarrow> update \<Rightarrow> outcome option" where
  "fallback ud u =
     (case u of
        Command name args \<Rightarrow> if name = ''cancel'' then Some (cancel ud) else None
      | _ \<Rightarrow> None)"

text \<open>
  One update of one conversation: the conversation's state (\<open>None\<close> when none is
  running), \<open>user_data\<close> and the effects. A handler that returns \<open>END\<close> ends the
  conversation; one that raises leaves the state as it was.
\<close>

definition handle_update ::
  "world \<Rightarrow> flow \<Rightarrow> int option \<times> user_data \<Rightarrow> update
     \<Rightarrow> (int option \<times> user_data) \<times> effect list" where
  "handle_update w fl conv u =
     (let (state, ud) = conv;
          handled = (case state of
                       None \<Rightarrow> entry_point w fl ud u
                     | Some st \<Rightarrow>
                       (case state_handler w fl st ud u of
                          Some out \<Rightarrow> Some out
                        | None \<Rightarrow> fallback ud u))
      in case handled of
           None \<Rightarrow> ((state, ud), [])
         | Some out \<Rightarrow>
           (((case returned out of
                Inl e \<Rightarrow> state
              | Inr r \<Rightarrow> if r = END then None else Some r),
             scratch out), effects out))"

section \<open>Notions and example data used in the statements\<close>

text \<open>The position of a datetime on the time line of its zone, in microseconds.\<close>

definition timestamp :: "datetime \<Rightarrow> int" where
  "timestamp dt = ordinal dt * DAY_MICROS + micros dt"

text \<open>
  A calendar backend holding one event, and library parameters for one reply, with the
  Arabic-Indic digits (U+0660 to U+0669) as the decimal digits beyond ASCII.
\<close>

definition example_event :: gevent where
  "example_event =
     \<lparr>ev_id = Some ''ev1'', ev_summary = PStr ''Riunione'', ev_location = PStr ''Ufficio'',
      ev_description = PStr ''Progetto'',
      ev_start = \<lparr>dateTime = Some \<lparr>ordinal = 738895, micros = 54000000000, tzinfo = Some 60\<rparr>,
                  date = None, timeZone = Some ''Europe/Rome''\<rparr>,
      ev_end = \<lparr>dateTime = Some \<lparr>ordinal = 738895, micros = 57600000000, tzinfo = Some 60\<rparr>,
                date = None, timeZone = Some ''Europe/Rome''\<rparr>,
      ev_reminders_useDefault = Some True\<rparr>"

definition example_service :: calendar_service where
  "example_service =
     \<lparr>events_get = (\<lambda>i. if i = ''ev1'' then Returned example_event else HttpError ''404''),
      events_insert = (\<lambda>e. Returned (e\<lparr>ev_id := Some ''new1''\<rparr>)),
      events_update = (\<lambda>i e. Returned e),
      events_delete = (\<lambda>i. Returned ())\<rparr>"

definition example_lib :: pylib where
  "example_lib =
     \<lparr>json_loads = (\<lambda>c. if c = ''(reply)''
         then Some (PDict [(''summary'', PStr ''riunione''),
                           (''start_time'', PStr ''2024-01-11 15:00''),
                           (''end_time'', PNone), (''location'', PStr ''ufficio''),
                           (''description'', PStr [])])
         else None),
      parse_rome = (\<lambda>v. if v = PStr ''2024-01-11 15:00''
         then Inr \<lparr>ordinal = 738896, micros = 54000000000, tzinfo = Some 60\<rparr>
         else Inl (LibraryError ''ParserError'')),
      unicode_decimal = (\<lambda>cp. if 1632 \<le> cp \<and> cp \<le> 1641 then Some (cp - 1632) else None)\<rparr>"

text \<open>
  A backend that echoes the user's text as its reply to an extraction and answers "2" to a
  deletion request, and decoded replies for three texts.
\<close>

definition example_chat :: openai_client where
  "example_chat = (\<lambda>request.
     case request of
       ExtractEvent t \<Rightarrow> Inr (Some t)
     | ExtractUpdate t \<Rightarrow> Inr (Some t)
     | ResolveDeletion listing t \<Rightarrow> Inr (Some ''2''))"

definition example_update_lib :: pylib where
  "example_update_lib =
     \<lparr>json_loads = (\<lambda>c.
        if c = ''(nulls)''
        then Some (PDict [(''summary'', PNone), (''start_time'', PNone), (''end_time'', PNone),
                          (''location'', PNone), (''description'', PNone)])
        else if c = ''(bad end)''
        then Some (PDict [(''summary'', PStr ''Cena''), (''start_time'', PNone),
                          (''end_time'', PStr ''tardi''), (''location'', PNone),
                          (''description'', PNone)])
        else if c = ''(bad start)''
        then Some (PDict [(''summary'', PNone), (''start_time'', PStr ''presto''),
                          (''end_time'', PNone), (''location'', PNone),
                          (''description'', PNone)])
        else None),
      parse_rome = (\<lambda>v. Inl (LibraryError ''Unknown string format'')),
      unicode_decimal = (\<lambda>cp. None)\<rparr>"


text \<open>A backend that echoes the user's text as its reply to every request.\<close>

definition example_echo :: openai_client where
  "example_echo = (\<lambda>request.
     case request of
       ExtractEvent t \<Rightarrow> Inr (Some t)
     | ExtractUpdate t \<Rightarrow> Inr (Some t)
     | ResolveDeletion listing t \<Rightarrow> Inr (Some t))"

text \<open>A world with all three backends, and a session in which two events are listed.\<close>

definition example_world :: world where
  "example_world =
     \<lparr>w_float = (\<lambda>s. if s = ''12.50'' then Some 12.5 else None),
      w_lib = example_lib,
      w_spreadsheet = Some \<lparr>ws_records = [], ws_raises = False\<rparr>,
      w_calendar = Some example_service,
      w_openai = Some example_chat,
      w_now = \<lparr>ordinal = 738895, micros = 37800000000, tzinfo = None\<rparr>,
      w_upcoming = (True, EventsText ''Nessun evento in programma.'')\<rparr>"

definition example_session :: user_data where
  "example_session =
     [(''events'',
       UEvents [\<lparr>le_id = ''ev0'', le_summary = ''Dentista'', le_start = ''10/01/2024 09:00'',
                 le_location = [], le_description = []\<rparr>,
                \<lparr>le_id = ''ev1'', le_summary = ''Riunione'', le_start = ''10/01/2024 15:00'',
                 le_location = ''Ufficio'', le_description = ''Progetto''\<rparr>])]"

text \<open>A non-empty text of the digits 0 to 9.\<close>

definition ascii_digits :: "string \<Rightarrow> bool" where
  "ascii_digits s = (s \<noteq> [] \<and> (\<forall>c \<in> set s. (48::nat) \<le> of_char c \<and> of_char c \<le> (57::nat)))"

text \<open>
  The two outcomes of the delete flow's selection step after a call of the extractor that
  sent \<open>requests\<close> to the backend. A reported failure: the error is replied, the state
  stays the selection state and \<open>user_data\<close> is as before. A deletion: the outcome of
  \<open>delete_event_confirmation\<close> for the resolved id, after the effects of the extractor's
  call.
\<close>

definition reported_failure :: "user_data \<Rightarrow> llm_request list \<Rightarrow> message \<Rightarrow> outcome" where
  "reported_failure ud requests error =
     \<lparr>returned = Inr CALENDAR_EVENT_SELECTION, scratch = ud,
      effects = wait_processing # map Backend requests @
        [RemoveWait,
         Reply (Wrapped ''Errore: '' error
                  ([CHR 0x0A, CHR 0x0A] @ ''Riprova o invia /cancel per annullare.'')) []]\<rparr>"

definition deletion_after ::
  "world \<Rightarrow> user_data \<Rightarrow> llm_request list \<Rightarrow> string \<Rightarrow> outcome" where
  "deletion_after w ud requests event_id =
     \<lparr>returned = Inr END, scratch = [],
      effects = wait_processing # map Backend requests @ [RemoveWait]
        @ effects (delete_event_confirmation w ud event_id)\<rparr>"

text \<open>
  The two exits of the update flow that keep the session: a chosen event that is not
  among the listed ones, and a missing event id.
\<close>

definition unlisted_selection :: "user_data \<Rightarrow> update \<Rightarrow> bool" where
  "unlisted_selection ud u =
     (case u of
        CallbackQuery d \<Rightarrow>
          starts_with ''event_'' d \<and> d \<noteq> ''event_cancel''
          \<and> find (\<lambda>event. le_id event = remove_sub ''event_'' d)
               (events_of (AList.update ''event_id'' (UStr (remove_sub ''event_'' d)) ud))
              = None
      | _ \<Rightarrow> False)"

definition missing_event_id :: "user_data \<Rightarrow> update \<Rightarrow> bool" where
  "missing_event_id ud u =
     (case u of
        TextMessage t \<Rightarrow>
          (case map_of ud ''event_id'' of
             Some (UStr i) \<Rightarrow> i = []
           | _ \<Rightarrow> True)
      | _ \<Rightarrow> False)"

section \<open>Facts about the string operations\<close>

declare str_of_nat.simps [simp del]

lemma code_points_ascii:
  "\<forall>c \<in> set s. (of_char c :: nat) < 128 \<Longrightarrow> code_points s = map (\<lambda>c. [c]) s"
  by (induction s) (simp_all add: utf8_width_def)

lemma concat_singletons: "concat (map (\<lambda>c. [c]) s) = s"
  by (induction s) simp_all

lemma strip_ascii:
  assumes "\<forall>c \<in> set s. (of_char c :: nat) < 128" and "s \<noteq> []"
    and "\<not> is_space [hd s]" and "\<not> is_space [last s]"
  shows "strip s = s"
proof -
  let ?cs = "map (\<lambda>c. [c]) s"
  have h: "hd ?cs = [hd s]" "last ?cs = [last s]" "?cs \<noteq> []"
    using assms(2) by (simp_all add: hd_map last_map)
  have d1: "dropWhile is_space ?cs = ?cs"
    using h assms(3) by (cases ?cs) auto
  have "hd (rev ?cs) = [last s]" using h by (simp add: hd_rev)
  then have d2: "dropWhile is_space (rev ?cs) = rev ?cs"
    using h(3) assms(4) by (cases "rev ?cs") auto
  show ?thesis
    by (simp add: strip_def code_points_ascii [OF assms(1)] d1 d2 concat_singletons
        del: rev_map)
qed

lemma digit_value_ascii:
  "(48::nat) \<le> of_char c \<Longrightarrow> of_char c \<le> (57::nat)
   \<Longrightarrow> digit_value tbl [c] = Some (of_char c - 48)"
  by (simp add: digit_value_def code_point_def)

lemma is_space_digit:
  "(48::nat) \<le> of_char c \<Longrightarrow> of_char c \<le> (57::nat) \<Longrightarrow> \<not> is_space [c]"
  by (auto simp add: is_space_def code_point_def Let_def)

lemma lower_digit:
  "(48::nat) \<le> of_char c \<Longrightarrow> of_char c \<le> (57::nat) \<Longrightarrow> lower_char c = c"
  by (simp add: lower_char_def)

lemma ascii_digits_code_points:
  "ascii_digits s \<Longrightarrow> code_points s = map (\<lambda>c. [c]) s"
  by (rule code_points_ascii) (auto simp add: ascii_digits_def)

lemma ascii_digits_all:
  "ascii_digits s \<Longrightarrow> \<forall>d \<in> set (map (\<lambda>c. [c]) s). is_digit tbl d"
  by (auto simp add: ascii_digits_def is_digit_def digit_value_ascii)

lemma ascii_digits_strip: "ascii_digits s \<Longrightarrow> strip s = s"
proof (rule strip_ascii)
  assume a: "ascii_digits s"
  then show "\<forall>c \<in> set s. (of_char c :: nat) < 128" "s \<noteq> []"
    by (auto simp add: ascii_digits_def)
  from a have m: "hd s \<in> set s" "last s \<in> set s" by (simp_all add: ascii_digits_def)
  from a have r: "\<And>c. c \<in> set s \<Longrightarrow> \<not> is_space [c]"
    using is_space_digit by (simp add: ascii_digits_def)
  show "\<not> is_space [hd s]" by (rule r [OF m(1)])
  show "\<not> is_space [last s]" by (rule r [OF m(2)])
qed

lemma ascii_digits_lower: "ascii_digits s \<Longrightarrow> lower s = s"
  by (auto simp add: ascii_digits_def lower_def lower_digit intro: map_idI)

lemma digits_contain_no_letters:
  "\<forall>c \<in> set s. (48::nat) \<le> of_char c \<and> of_char c \<le> (57::nat)
   \<Longrightarrow> \<not> contains ''non trovato'' s"
proof (induction s)
  case Nil
  show ?case by simp
next
  case (Cons c cs)
  have "take (length ''non trovato'') (c # cs) \<noteq> ''non trovato''"
  proof
    assume "take (length ''non trovato'') (c # cs) = ''non trovato''"
    then have "c = CHR ''n''" by simp
    with Cons.prems show False by simp
  qed
  with Cons show ?case by simp
qed

lemma ascii_digits_match:
  "ascii_digits s \<Longrightarrow> match_number tbl s = Some (map (\<lambda>c. [c]) s)"
proof -
  assume a: "ascii_digits s"
  let ?cs = "map (\<lambda>c. [c]) s"
  have t: "takeWhile (is_digit tbl) ?cs = ?cs" "dropWhile (is_digit tbl) ?cs = []"
    using ascii_digits_all [OF a, of tbl] by simp_all
  have "?cs \<noteq> []" using a by (simp add: ascii_digits_def)
  then show ?thesis
    by (simp add: match_number_def Let_def ascii_digits_code_points [OF a] t del: map_eq_conv)
qed

lemma ascii_digits_search:
  "ascii_digits s \<Longrightarrow> search_digits tbl s = Some (map (\<lambda>c. [c]) s)"
proof -
  assume a: "ascii_digits s"
  let ?cs = "map (\<lambda>c. [c]) s"
  have ne: "?cs \<noteq> []" using a by (simp add: ascii_digits_def)
  have all: "\<forall>d \<in> set ?cs. is_digit tbl d" by (rule ascii_digits_all [OF a])
  then have "is_digit tbl (hd ?cs)" using ne by (metis hd_in_set)
  then have d: "dropWhile (\<lambda>c. \<not> is_digit tbl c) ?cs = ?cs"
    using ne by (cases ?cs) auto
  have t: "takeWhile (is_digit tbl) ?cs = ?cs" using all by simp
  show ?thesis
    using ne by (simp add: search_digits_def Let_def ascii_digits_code_points [OF a] d t
        del: map_eq_conv)
qed

lemma int_of_digits_snoc:
  "int_of_digits tbl (ds @ [d])
     = 10 * int_of_digits tbl ds + (case digit_value tbl d of Some v \<Rightarrow> int v | None \<Rightarrow> 0)"
  by (simp add: int_of_digits_def)

lemma digit_char: "k < 10 \<Longrightarrow> of_char (char_of (48 + k :: nat)) = (48 + k :: nat)"
  by simp

lemma str_of_nat_digits: "ascii_digits (str_of_nat n)"
proof (induction n rule: str_of_nat.induct)
  case (1 n)
  show ?case
  proof (cases "n < 10")
    case True
    then show ?thesis
      by (subst str_of_nat.simps) (simp add: ascii_digits_def)
  next
    case False
    have "n mod 10 < 10" by simp
    then have d: "(48::nat) \<le> of_char (char_of (48 + n mod 10))"
      "of_char (char_of (48 + n mod 10)) \<le> (57::nat)"
      by simp_all
    from False 1 have "ascii_digits (str_of_nat (n div 10))" by simp
    with False d show ?thesis
      by (subst str_of_nat.simps) (simp add: ascii_digits_def)
  qed
qed

lemma int_of_digits_str: "int_of_digits tbl (map (\<lambda>c. [c]) (str_of_nat n)) = int n"
proof (induction n rule: str_of_nat.induct)
  case (1 n)
  show ?case
  proof (cases "n < 10")
    case True
    then show ?thesis
      by (subst str_of_nat.simps) (simp add: int_of_digits_def digit_value_ascii)
  next
    case False
    then have ih: "int_of_digits tbl (map (\<lambda>c. [c]) (str_of_nat (n div 10))) = int (n div 10)"
      using 1 by simp
    have m: "n mod 10 < 10" by simp
    then have v: "digit_value tbl [char_of (48 + n mod 10)] = Some (n mod 10)"
      by (simp add: digit_value_ascii)
    have "int_of_digits tbl (map (\<lambda>c. [c]) (str_of_nat n))
            = 10 * int (n div 10) + int (n mod 10)"
      using False by (subst str_of_nat.simps) (simp add: int_of_digits_snoc ih v)
    also have "\<dots> = int n"
      by (simp add: zdiv_int zmod_int)
    finally show ?thesis .
  qed
qed

section \<open>Properties of the expense ledger adapter\<close>

text \<open>
  C9. When the worksheet is read and holds no records, the report is the successful
  message "Nessuna spesa registrata." for every period and every category argument,
  also a category outside the configured set: the empty-ledger check comes before the
  category validation.
\<close>

theorem empty_ledger_report:
  "ws_records ws = [] \<Longrightarrow> \<not> ws_raises ws \<Longrightarrow>
   get_expense_report (Some ws) now period category = (True, Text ''Nessuna spesa registrata.'')"
  by (simp add: get_expense_report_def)

theorem empty_ledger_report_witness:
  "ws_records \<lparr>ws_records = [], ws_raises = False\<rparr> = []
   \<and> \<not> ws_raises \<lparr>ws_records = [], ws_raises = False\<rparr>
   \<and> ''Viaggi'' \<notin> set EXPENSE_CATEGORIES
   \<and> get_expense_report (Some \<lparr>ws_records = [], ws_raises = False\<rparr>)
        \<lparr>ordinal = 738895, micros = 37800000000, tzinfo = None\<rparr> ''week'' (Some ''Viaggi'')
      = (True, Text ''Nessuna spesa registrata.'')"
  using empty_ledger_report [of "\<lparr>ws_records = [], ws_raises = False\<rparr>"
      "\<lparr>ordinal = 738895, micros = 37800000000, tzinfo = None\<rparr>" "''week''" "Some ''Viaggi''"]
  by (simp add: EXPENSE_CATEGORIES_def)

lemma div_shift_days: "0 \<le> a \<Longrightarrow> a < D \<Longrightarrow> (a - w * D) div D = - (w::int)"
proof -
  assume a: "0 \<le> a" "a < D"
  then have D: "D \<noteq> 0" by auto
  have "(a + (- w) * D) div D = (- w) + a div D"
    using D by (rule div_mult_self1)
  then show ?thesis using a by simp
qed

lemma mod_shift_days: "0 \<le> a \<Longrightarrow> a < D \<Longrightarrow> (a - w * D) mod D = (a::int)"
proof -
  assume a: "0 \<le> a" "a < D"
  have "(a + (- w) * D) mod D = a mod D"
    by (rule mod_mult_self1)
  then show ?thesis using a by simp
qed

lemma week_start_exists:
  assumes "0 < ordinal now" "ordinal now \<le> MAXORDINAL" "0 \<le> micros now" "micros now < DAY_MICROS"
  shows "dt_sub now (timedelta_days (weekday now))
         = Some (now\<lparr>ordinal := ordinal now - weekday now\<rparr>)"
proof -
  let ?w = "weekday now"
  have w: "0 \<le> ?w" "?w \<le> ordinal now - 1"
    using assms(1) unfolding weekday_def by presburger+
  have d: "(micros now + - (?w * DAY_MICROS)) div DAY_MICROS = - ?w"
    using div_shift_days [OF assms(3,4)] by simp
  have m: "(micros now + - (?w * DAY_MICROS)) mod DAY_MICROS = micros now"
    using mod_shift_days [OF assms(3,4)] by simp
  show ?thesis
    unfolding dt_sub_def dt_add_def timedelta_days_def Let_def d m
    using w assms(2) by simp
qed

lemma to_datetime_total:
  "\<forall>r \<in> set rs. Data r \<noteq> Malformed \<Longrightarrow> \<exists>df. to_datetime rs = Some df"
  by (induction rs) (auto split: date_cell.splits)

lemma filter_period_total:
  assumes "0 < ordinal now" "ordinal now \<le> MAXORDINAL" "0 \<le> micros now" "micros now < DAY_MICROS"
  shows "\<exists>kept txt. filter_period now period df = Some (kept, txt)"
  using week_start_exists [OF assms] by (simp add: filter_period_def)

text \<open>
  C1 (as amended). For a valid clock value \<open>now\<close> and the Monday \<open>m\<close> of its week,
  the weekly filter keeps only rows of the ledger, keeps every row dated after \<open>m\<close>
  (with no upper bound at \<open>now\<close>), and drops every row dated before \<open>m\<close>, the
  Sunday before it included, and every row with a blank date. Rows dated \<open>m\<close> itself
  are left out of the statement.
\<close>

theorem week_filter_rows:
  assumes "0 < ordinal now" "ordinal now \<le> MAXORDINAL" "0 \<le> micros now" "micros now < DAY_MICROS"
    and "(m + 6) mod 7 = 0" "m \<le> ordinal now" "ordinal now < m + 7"
  shows "\<exists>kept. filter_period now ''week'' df = Some (kept, ''questa settimana'')
           \<and> set kept \<subseteq> set df
           \<and> (\<forall>r \<in> set df. \<forall>t. Data r = Some t \<and> m < ordinal t \<longrightarrow> r \<in> set kept)
           \<and> (\<forall>r \<in> set df. \<forall>t. Data r = Some t \<and> ordinal t < m \<longrightarrow> r \<notin> set kept)
           \<and> (\<forall>r \<in> set df. Data r = None \<longrightarrow> r \<notin> set kept)"
proof -
  have m: "ordinal now - weekday now = m"
    using assms(5,6,7) unfolding weekday_def by presburger
  show ?thesis
    using week_start_exists [OF assms(1-4)] m
    by (auto simp add: filter_period_def dt_ge_def on_date_def)
qed

theorem week_filter_rows_witness:
  "0 < ordinal \<lparr>ordinal = 738895, micros = 37800000000, tzinfo = None\<rparr>
   \<and> ordinal \<lparr>ordinal = 738895, micros = 37800000000, tzinfo = None\<rparr> \<le> MAXORDINAL
   \<and> 0 \<le> micros \<lparr>ordinal = 738895, micros = 37800000000, tzinfo = None\<rparr>
   \<and> micros \<lparr>ordinal = 738895, micros = 37800000000, tzinfo = None\<rparr> < DAY_MICROS
   \<and> (738893 + 6) mod 7 = (0::int)
   \<and> 738893 \<le> ordinal \<lparr>ordinal = 738895, micros = 37800000000, tzinfo = None\<rparr>
   \<and> ordinal \<lparr>ordinal = 738895, micros = 37800000000, tzinfo = None\<rparr> < 738893 + 7
   \<and> (\<exists>kept.
        filter_period \<lparr>ordinal = 738895, micros = 37800000000, tzinfo = None\<rparr> ''week''
          [\<lparr>Data = Some \<lparr>ordinal = 738892, micros = 0, tzinfo = None\<rparr>, Importo = 5,
             Categoria = ''Casa'', Descrizione = []\<rparr>,
           \<lparr>Data = Some \<lparr>ordinal = 738894, micros = 0, tzinfo = None\<rparr>, Importo = 7,
             Categoria = ''Casa'', Descrizione = []\<rparr>,
           \<lparr>Data = None, Importo = 2, Categoria = ''Casa'', Descrizione = []\<rparr>]
          = Some (kept, ''questa settimana'')
        \<and> \<lparr>Data = Some \<lparr>ordinal = 738894, micros = 0, tzinfo = None\<rparr>, Importo = 7,
             Categoria = ''Casa'', Descrizione = []\<rparr> \<in> set kept
        \<and> \<lparr>Data = Some \<lparr>ordinal = 738892, micros = 0, tzinfo = None\<rparr>, Importo = 5,
             Categoria = ''Casa'', Descrizione = []\<rparr> \<notin> set kept
        \<and> \<lparr>Data = None, Importo = 2, Categoria = ''Casa'', Descrizione = []\<rparr>
             \<notin> set kept)"
proof -
  let ?now = "\<lparr>ordinal = 738895, micros = 37800000000, tzinfo = None\<rparr>"
  let ?sun = "\<lparr>Data = Some \<lparr>ordinal = 738892, micros = 0, tzinfo = None\<rparr>, Importo = 5::real,
             Categoria = ''Casa'', Descrizione = []\<rparr>"
  let ?tue = "\<lparr>Data = Some \<lparr>ordinal = 738894, micros = 0, tzinfo = None\<rparr>, Importo = 7::real,
             Categoria = ''Casa'', Descrizione = []\<rparr>"
  let ?blank = "\<lparr>Data = None, Importo = 2::real, Categoria = ''Casa'', Descrizione = []\<rparr>
             :: datetime option expense_row"
  have h: "0 < ordinal ?now" "ordinal ?now \<le> MAXORDINAL" "0 \<le> micros ?now"
    "micros ?now < DAY_MICROS" "(738893 + 6) mod 7 = (0::int)" "738893 \<le> ordinal ?now"
    "ordinal ?now < 738893 + 7"
    by (simp_all add: MAXORDINAL_def DAY_MICROS_def)
  obtain kept where k: "filter_period ?now ''week'' [?sun, ?tue, ?blank] = Some (kept, ''questa settimana'')"
    and inc: "\<forall>r \<in> set [?sun, ?tue, ?blank]. \<forall>t. Data r = Some t \<and> 738893 < ordinal t
                \<longrightarrow> r \<in> set kept"
    and exc: "\<forall>r \<in> set [?sun, ?tue, ?blank]. \<forall>t. Data r = Some t \<and> ordinal t < 738893
                \<longrightarrow> r \<notin> set kept"
    and nat: "\<forall>r \<in> set [?sun, ?tue, ?blank]. Data r = None \<longrightarrow> r \<notin> set kept"
    using week_filter_rows [OF h, of "[?sun, ?tue, ?blank]"] by blast
  have "?tue \<in> set kept" using inc by simp
  moreover have "?sun \<notin> set kept" using exc by simp
  moreover have "?blank \<notin> set kept" using nat by simp
  ultimately show ?thesis using h k by blast
qed

theorem week_report_counterexample:
  "weekday \<lparr>ordinal = 738893, micros = 0, tzinfo = None\<rparr> = 0
   \<and> weekday \<lparr>ordinal = 738895, micros = 37800000000, tzinfo = None\<rparr> = 2
   \<and> dt_ge \<lparr>ordinal = 738895, micros = 37800000000, tzinfo = None\<rparr>
        \<lparr>ordinal = 738893, micros = 0, tzinfo = None\<rparr>
   \<and> \<not> dt_ge \<lparr>ordinal = 738895, micros = 37800000000, tzinfo = None\<rparr>
        \<lparr>ordinal = 738897, micros = 0, tzinfo = None\<rparr>
   \<and> filter_period \<lparr>ordinal = 738895, micros = 37800000000, tzinfo = None\<rparr> ''week''
        [\<lparr>Data = Some \<lparr>ordinal = 738893, micros = 0, tzinfo = None\<rparr>, Importo = 12.5,
           Categoria = ''Trasporti'', Descrizione = []\<rparr>,
         \<lparr>Data = Some \<lparr>ordinal = 738897, micros = 0, tzinfo = None\<rparr>, Importo = 3,
           Categoria = ''Casa'', Descrizione = []\<rparr>]
      = Some ([\<lparr>Data = Some \<lparr>ordinal = 738897, micros = 0, tzinfo = None\<rparr>, Importo = 3,
                Categoria = ''Casa'', Descrizione = []\<rparr>], ''questa settimana'')
   \<and> get_expense_report
        (Some \<lparr>ws_records = [\<lparr>Data = DateText 738893, Importo = 12.5,
                  Categoria = ''Trasporti'', Descrizione = []\<rparr>], ws_raises = False\<rparr>)
        \<lparr>ordinal = 738895, micros = 37800000000, tzinfo = None\<rparr> ''week'' None
      = (True, Text ''Nessuna spesa questa settimana.'')"
  by (simp add: weekday_def dt_ge_def filter_period_def dt_sub_def dt_add_def on_date_def
      timedelta_days_def DAY_MICROS_def MAXORDINAL_def get_expense_report_def)

text \<open>
  C3 (as amended). For a category outside the configured set, \<open>add_expense\<close> always
  rejects with the invalid-category message; \<open>get_expense_report\<close> rejects with the
  same message when the category is a non-empty string, the worksheet is read, holds
  records, and \<open>pd.to_datetime\<close> raises on no date cell.
\<close>

theorem invalid_category_rejected:
  assumes "category \<notin> set EXPENSE_CATEGORIES"
  shows "add_expense pyfloat spreadsheet now amount (Some category) description
           = Inr ((False, invalid_category_message), [])
         \<and> (category \<noteq> [] \<and> ws_records ws \<noteq> [] \<and> \<not> ws_raises ws
              \<and> (\<forall>r \<in> set (ws_records ws). Data r \<noteq> Malformed)
              \<and> 0 < ordinal now \<and> ordinal now \<le> MAXORDINAL
              \<and> 0 \<le> micros now \<and> micros now < DAY_MICROS
            \<longrightarrow> get_expense_report (Some ws) now period (Some category)
                  = (False, invalid_category_message))"
proof (intro conjI impI)
  show "add_expense pyfloat spreadsheet now amount (Some category) description
           = Inr ((False, invalid_category_message), [])"
    using assms by (simp add: add_expense_def)
next
  assume h: "category \<noteq> [] \<and> ws_records ws \<noteq> [] \<and> \<not> ws_raises ws
              \<and> (\<forall>r \<in> set (ws_records ws). Data r \<noteq> Malformed)
              \<and> 0 < ordinal now \<and> ordinal now \<le> MAXORDINAL
              \<and> 0 \<le> micros now \<and> micros now < DAY_MICROS"
  then obtain df where df: "to_datetime (ws_records ws) = Some df"
    using to_datetime_total by blast
  from h obtain kept ptxt where k: "filter_period now period df = Some (kept, ptxt)"
    using filter_period_total by blast
  show "get_expense_report (Some ws) now period (Some category)
                  = (False, invalid_category_message)"
    using h assms df k by (simp add: get_expense_report_def)
qed


theorem invalid_category_rejected_witness:
  "''Viaggi'' \<notin> set EXPENSE_CATEGORIES
   \<and> add_expense (\<lambda>s. None) None \<lparr>ordinal = 738895, micros = 37800000000, tzinfo = None\<rparr>
        (AmountFloat 12.5) (Some ''Viaggi'') []
      = Inr ((False, invalid_category_message), [])
   \<and> get_expense_report
        (Some \<lparr>ws_records = [\<lparr>Data = DateText 738894, Importo = 12.5,
                  Categoria = ''Trasporti'', Descrizione = []\<rparr>], ws_raises = False\<rparr>)
        \<lparr>ordinal = 738895, micros = 37800000000, tzinfo = None\<rparr> ''month'' (Some ''Viaggi'')
      = (False, invalid_category_message)"
  using invalid_category_rejected [of "''Viaggi''" "\<lambda>s. None" None
      "\<lparr>ordinal = 738895, micros = 37800000000, tzinfo = None\<rparr>" "AmountFloat 12.5" "[]"
      "\<lparr>ws_records = [\<lparr>Data = DateText 738894, Importo = 12.5,
                  Categoria = ''Trasporti'', Descrizione = []\<rparr>], ws_raises = False\<rparr>" "''month''"]
  by (simp add: EXPENSE_CATEGORIES_def MAXORDINAL_def DAY_MICROS_def)

theorem invalid_category_counterexample:
  "''Viaggi'' \<notin> set EXPENSE_CATEGORIES
   \<and> get_expense_report (Some \<lparr>ws_records = [], ws_raises = False\<rparr>)
        \<lparr>ordinal = 738895, micros = 37800000000, tzinfo = None\<rparr> ''month'' (Some ''Viaggi'')
      = (True, Text ''Nessuna spesa registrata.'')
   \<and> [] \<notin> set EXPENSE_CATEGORIES
   \<and> get_expense_report
        (Some \<lparr>ws_records = [\<lparr>Data = DateText 738894, Importo = 12.5,
                  Categoria = ''Trasporti'', Descrizione = []\<rparr>], ws_raises = False\<rparr>)
        \<lparr>ordinal = 738895, micros = 37800000000, tzinfo = None\<rparr> ''all'' (Some [])
      = (True, Report ''totali'' [] 12.5 (Some [(''Trasporti'', 12.5)]))
   \<and> get_expense_report None
        \<lparr>ordinal = 738895, micros = 37800000000, tzinfo = None\<rparr> ''month'' (Some ''Viaggi'')
      = (False, Text ''Impossibile accedere al foglio delle spese.'')
   \<and> get_expense_report
        (Some \<lparr>ws_records = [\<lparr>Data = Malformed, Importo = 12.5,
                  Categoria = ''Trasporti'', Descrizione = []\<rparr>], ws_raises = False\<rparr>)
        \<lparr>ordinal = 738895, micros = 37800000000, tzinfo = None\<rparr> ''month'' (Some ''Viaggi'')
      = (False, Text ''Errore nella generazione del report.'')
   \<and> invalid_category_message \<noteq> Text ''Impossibile accedere al foglio delle spese.''
   \<and> invalid_category_message \<noteq> Text ''Errore nella generazione del report.''"
  by (simp add: EXPENSE_CATEGORIES_def get_expense_report_def filter_period_def on_date_def
      category_totals_def report_error_def invalid_category_message_def)

section \<open>Properties of the calendar adapter and the extractor\<close>

lemma set_time_typed:
  "truthy t \<longrightarrow> (\<exists>d. t = PDatetime d) \<Longrightarrow>
   set_time t slot = Some (case t of PDatetime d \<Rightarrow> slot\<lparr>dateTime := Some d\<rparr> | _ \<Rightarrow> slot)"
  by (cases t) (auto simp add: set_time_def)

lemma snd_api_case:
  "snd (case r of Returned u \<Rightarrow> (f u, s) | HttpError t \<Rightarrow> (g t, s) | OtherError \<Rightarrow> (h, s)) = s"
  by (cases r) simp_all

text \<open>
  C2 (as amended). \<open>update_event\<close> sends back the fetched event with: the summary replaced
  when the new summary is truthy (a summary that is absent or the empty string leaves it
  unchanged); the description and the location replaced when the new value is not
  \<open>None\<close> (the empty string is applied); the start and end time replaced when a new
  datetime is given; every other field as it was fetched.
\<close>

theorem update_event_fields:
  assumes "events_get svc event_id = Returned old"
    and "truthy start_time \<longrightarrow> (\<exists>d. start_time = PDatetime d)"
    and "truthy end_time \<longrightarrow> (\<exists>d. end_time = PDatetime d)"
  shows "\<exists>event.
           snd (update_event (Some svc) event_id summary start_time end_time
                  description location)
             = [Get event_id, Update event_id event]
         \<and> ev_summary event = (if truthy summary then summary else ev_summary old)
         \<and> ev_description event
             = (if description = PNone then ev_description old else description)
         \<and> ev_location event = (if location = PNone then ev_location old else location)
         \<and> dateTime (ev_start event)
             = (case start_time of PDatetime d \<Rightarrow> Some d | _ \<Rightarrow> dateTime (ev_start old))
         \<and> dateTime (ev_end event)
             = (case end_time of PDatetime d \<Rightarrow> Some d | _ \<Rightarrow> dateTime (ev_end old))
         \<and> ev_id event = ev_id old
         \<and> date (ev_start event) = date (ev_start old)
         \<and> timeZone (ev_start event) = timeZone (ev_start old)
         \<and> date (ev_end event) = date (ev_end old)
         \<and> timeZone (ev_end event) = timeZone (ev_end old)
         \<and> ev_reminders_useDefault event = ev_reminders_useDefault old"
proof -
  define event where "event = old
     \<lparr>ev_summary := (if truthy summary then summary else ev_summary old),
      ev_description := (if description = PNone then ev_description old else description),
      ev_location := (if location = PNone then ev_location old else location),
      ev_start := (case start_time of PDatetime d \<Rightarrow> (ev_start old)\<lparr>dateTime := Some d\<rparr>
                    | _ \<Rightarrow> ev_start old),
      ev_end := (case end_time of PDatetime d \<Rightarrow> (ev_end old)\<lparr>dateTime := Some d\<rparr>
                  | _ \<Rightarrow> ev_end old)\<rparr>"
  have sent: "snd (update_event (Some svc) event_id summary start_time end_time
                  description location) = [Get event_id, Update event_id event]"
    using assms(1) set_time_typed [OF assms(2)] set_time_typed [OF assms(3)]
    by (cases "truthy summary"; cases "description = PNone"; cases "location = PNone")
       (simp_all add: update_event_def Let_def snd_api_case event_def cong: pyval.case_cong)
  have fields: "ev_summary event = (if truthy summary then summary else ev_summary old)"
      "ev_description event = (if description = PNone then ev_description old else description)"
      "ev_location event = (if location = PNone then ev_location old else location)"
      "ev_id event = ev_id old" "ev_reminders_useDefault event = ev_reminders_useDefault old"
    by (simp_all add: event_def)
  have times: "dateTime (ev_start event)
             = (case start_time of PDatetime d \<Rightarrow> Some d | _ \<Rightarrow> dateTime (ev_start old))"
      "dateTime (ev_end event)
             = (case end_time of PDatetime d \<Rightarrow> Some d | _ \<Rightarrow> dateTime (ev_end old))"
      "date (ev_start event) = date (ev_start old)"
      "timeZone (ev_start event) = timeZone (ev_start old)"
      "date (ev_end event) = date (ev_end old)"
      "timeZone (ev_end event) = timeZone (ev_end old)"
    by (simp_all add: event_def split: pyval.split)
  show ?thesis using sent fields times by blast
qed


theorem update_event_fields_witness:
  "events_get example_service ''ev1'' = Returned example_event
   \<and> (\<exists>event.
         snd (update_event (Some example_service) ''ev1'' (PStr ''Cena'') PNone
                (PDatetime \<lparr>ordinal = 738895, micros = 61200000000, tzinfo = Some 60\<rparr>)
                (PStr []) PNone)
           = [Get ''ev1'', Update ''ev1'' event]
       \<and> ev_summary event = PStr ''Cena''
       \<and> ev_description event = PStr []
       \<and> ev_location event = PStr ''Ufficio''
       \<and> dateTime (ev_start event) = dateTime (ev_start example_event)
       \<and> dateTime (ev_end event)
           = Some \<lparr>ordinal = 738895, micros = 61200000000, tzinfo = Some 60\<rparr>)"
proof -
  have g: "events_get example_service ''ev1'' = Returned example_event"
    by (simp add: example_service_def)
  have "ev_location example_event = PStr ''Ufficio''"
    by (simp add: example_event_def)
  then show ?thesis
    using g update_event_fields [OF g, of PNone
        "PDatetime \<lparr>ordinal = 738895, micros = 61200000000, tzinfo = Some 60\<rparr>"
        "PStr ''Cena''" "PStr []" PNone]
    by auto
qed

theorem update_event_empty_summary_counterexample:
  "PStr [] \<noteq> PNone
   \<and> ev_summary example_event = PStr ''Riunione''
   \<and> update_event (Some example_service) ''ev1'' (PStr []) PNone PNone PNone PNone
      = ((True, EventUpdated (PStr ''Riunione'')), [Get ''ev1'', Update ''ev1'' example_event])"
  by (simp add: update_event_def example_service_def set_time_def example_event_def)

lemma dt_add_timestamp:
  assumes "dt_add s delta = Some e"
  shows "timestamp e = timestamp s + delta \<and> tzinfo e = tzinfo s"
proof -
  let ?t = "micros s + delta"
  have e: "e = s\<lparr>ordinal := ordinal s + ?t div DAY_MICROS, micros := ?t mod DAY_MICROS\<rparr>"
    using assms by (simp add: dt_add_def Let_def split: if_splits)
  have "(ordinal s + ?t div DAY_MICROS) * DAY_MICROS + ?t mod DAY_MICROS
          = ordinal s * DAY_MICROS + (?t div DAY_MICROS * DAY_MICROS + ?t mod DAY_MICROS)"
    by (simp add: distrib_right)
  also have "\<dots> = ordinal s * DAY_MICROS + ?t"
    by (simp only: div_mult_mod_eq)
  finally show ?thesis by (simp add: e timestamp_def)
qed

lemma create_event_sent:
  "snd (create_event (Some svc) summary (PDatetime s) (PDatetime e) description location)
     = [Insert \<lparr>ev_id = None, ev_summary = summary, ev_location = location,
                ev_description = description,
                ev_start = \<lparr>dateTime = Some s, date = None, timeZone = Some ''Europe/Rome''\<rparr>,
                ev_end = \<lparr>dateTime = Some e, date = None, timeZone = Some ''Europe/Rome''\<rparr>,
                ev_reminders_useDefault = Some True\<rparr>]"
  by (simp add: create_event_def Let_def snd_api_case)

lemma create_event_default:
  "snd (create_event (Some svc) summary (PDatetime s) PNone description location)
     = (case dt_add s (timedelta_hours 1) of
          None \<Rightarrow> []
        | Some e \<Rightarrow>
          [Insert \<lparr>ev_id = None, ev_summary = summary, ev_location = location,
                ev_description = description,
                ev_start = \<lparr>dateTime = Some s, date = None, timeZone = Some ''Europe/Rome''\<rparr>,
                ev_end = \<lparr>dateTime = Some e, date = None, timeZone = Some ''Europe/Rome''\<rparr>,
                ev_reminders_useDefault = Some True\<rparr>])"
  by (cases "dt_add s (timedelta_hours 1)") (simp_all add: create_event_def Let_def snd_api_case)

lemma dict_get_update:
  "dict_get (AList.update k v d) k' = (if k' = k then v else dict_get d k')"
  by (simp add: dict_get_def update_conv')

lemma parse_event_reply_default:
  assumes "json_loads lib content = Some (PDict reply)"
    and "\<not> truthy (dict_get reply ''end_time'')
         \<or> (\<exists>x. parse_rome lib (dict_get reply ''end_time'') = Inl x)"
    and "parse_event_reply lib content = Inr event_data"
  shows "\<exists>s e. parse_rome lib (dict_get reply ''start_time'') = Inr s
           \<and> dt_add s (timedelta_hours 1) = Some e
           \<and> dict_get event_data ''start_time'' = PDatetime s
           \<and> dict_get event_data ''end_time'' = PDatetime e"
  using assms
  by (auto simp add: parse_event_reply_def Let_def dict_get_update
      split: if_splits sum.splits option.splits)


text \<open>
  C5. An event created with no end time ends exactly one hour after its start:
  \<open>create_event\<close> called with \<open>end_time = None\<close> inserts an event whose end is the start
  plus one hour (and inserts nothing when that sum is past the last representable day),
  and an extraction whose end time is missing or unparsable yields an end equal to the
  start plus one hour, which \<open>create_event\<close> then inserts unchanged. So the end is not
  before the start.
\<close>

theorem default_end_one_hour:
  "(\<forall>e. dt_add s (timedelta_hours 1) = Some e \<longrightarrow>
      (\<exists>event. snd (create_event (Some svc) summary (PDatetime s) PNone description location)
                 = [Insert event]
               \<and> dateTime (ev_start event) = Some s \<and> dateTime (ev_end event) = Some e)
      \<and> timestamp e = timestamp s + HOUR_MICROS \<and> tzinfo e = tzinfo s
      \<and> timestamp s \<le> timestamp e)
   \<and> (dt_add s (timedelta_hours 1) = None \<longrightarrow>
        snd (create_event (Some svc) summary (PDatetime s) PNone description location) = [])
   \<and> (json_loads lib content = Some (PDict reply)
        \<and> (\<not> truthy (dict_get reply ''end_time'')
             \<or> (\<exists>x. parse_rome lib (dict_get reply ''end_time'') = Inl x))
        \<and> parse_event_reply lib content = Inr event_data \<longrightarrow>
        (\<exists>s' e'. dict_get event_data ''start_time'' = PDatetime s'
            \<and> dict_get event_data ''end_time'' = PDatetime e'
            \<and> timestamp e' = timestamp s' + HOUR_MICROS \<and> tzinfo e' = tzinfo s'
            \<and> timestamp s' \<le> timestamp e'
            \<and> (\<exists>event. snd (create_event (Some svc) summary
                                (dict_get event_data ''start_time'')
                                (dict_get event_data ''end_time'') description location)
                          = [Insert event]
                  \<and> dateTime (ev_start event) = Some s'
                  \<and> dateTime (ev_end event) = Some e')))"
proof (intro conjI allI impI)
  fix e assume a: "dt_add s (timedelta_hours 1) = Some e"
  show "\<exists>event. snd (create_event (Some svc) summary (PDatetime s) PNone description location)
                 = [Insert event]
               \<and> dateTime (ev_start event) = Some s \<and> dateTime (ev_end event) = Some e"
    by (simp add: create_event_default a)
  from dt_add_timestamp [OF a]
  show "timestamp e = timestamp s + HOUR_MICROS" "tzinfo e = tzinfo s"
    "timestamp s \<le> timestamp e"
    by (simp_all add: timedelta_hours_def HOUR_MICROS_def)
next
  assume "dt_add s (timedelta_hours 1) = None"
  then show "snd (create_event (Some svc) summary (PDatetime s) PNone description location) = []"
    by (simp add: create_event_default)
next
  assume h: "json_loads lib content = Some (PDict reply)
        \<and> (\<not> truthy (dict_get reply ''end_time'')
             \<or> (\<exists>x. parse_rome lib (dict_get reply ''end_time'') = Inl x))
        \<and> parse_event_reply lib content = Inr event_data"
  then obtain s' e' where p: "dt_add s' (timedelta_hours 1) = Some e'"
      "dict_get event_data ''start_time'' = PDatetime s'"
      "dict_get event_data ''end_time'' = PDatetime e'"
    using parse_event_reply_default [of lib content reply event_data] by blast
  from dt_add_timestamp [OF p(1)]
  have t: "timestamp e' = timestamp s' + HOUR_MICROS" "tzinfo e' = tzinfo s'"
    "timestamp s' \<le> timestamp e'"
    by (simp_all add: timedelta_hours_def HOUR_MICROS_def)
  show "\<exists>s' e'. dict_get event_data ''start_time'' = PDatetime s'
            \<and> dict_get event_data ''end_time'' = PDatetime e'
            \<and> timestamp e' = timestamp s' + HOUR_MICROS \<and> tzinfo e' = tzinfo s'
            \<and> timestamp s' \<le> timestamp e'
            \<and> (\<exists>event. snd (create_event (Some svc) summary
                                (dict_get event_data ''start_time'')
                                (dict_get event_data ''end_time'') description location)
                          = [Insert event]
                  \<and> dateTime (ev_start event) = Some s'
                  \<and> dateTime (ev_end event) = Some e')"
    using p(2,3) t by (simp add: create_event_sent)
qed

theorem default_end_one_hour_witness:
  "dt_add \<lparr>ordinal = 738896, micros = 54000000000, tzinfo = Some 60\<rparr> (timedelta_hours 1)
     = Some \<lparr>ordinal = 738896, micros = 57600000000, tzinfo = Some 60\<rparr>
   \<and> (\<exists>event. snd (create_event (Some example_service) (PStr ''riunione'')
                     (PDatetime \<lparr>ordinal = 738896, micros = 54000000000, tzinfo = Some 60\<rparr>)
                     PNone (PStr []) (PStr ''ufficio''))
                 = [Insert event]
         \<and> dateTime (ev_end event)
             = Some \<lparr>ordinal = 738896, micros = 57600000000, tzinfo = Some 60\<rparr>)
   \<and> dt_add \<lparr>ordinal = 3652059, micros = 84600000000, tzinfo = Some 60\<rparr> (timedelta_hours 1)
       = None
   \<and> snd (create_event (Some example_service) (PStr ''riunione'')
            (PDatetime \<lparr>ordinal = 3652059, micros = 84600000000, tzinfo = Some 60\<rparr>)
            PNone (PStr []) (PStr ''ufficio'')) = []
   \<and> \<not> truthy (dict_get [(''summary'', PStr ''riunione''),
                           (''start_time'', PStr ''2024-01-11 15:00''),
                           (''end_time'', PNone), (''location'', PStr ''ufficio''),
                           (''description'', PStr [])] ''end_time'')
   \<and> parse_event_reply example_lib ''(reply)''
       = Inr [(''summary'', PStr ''riunione''),
              (''start_time'',
               PDatetime \<lparr>ordinal = 738896, micros = 54000000000, tzinfo = Some 60\<rparr>),
              (''end_time'',
               PDatetime \<lparr>ordinal = 738896, micros = 57600000000, tzinfo = Some 60\<rparr>),
              (''location'', PStr ''ufficio''), (''description'', PStr [])]
   \<and> timestamp \<lparr>ordinal = 738896, micros = 57600000000, tzinfo = Some 60\<rparr>
       = timestamp \<lparr>ordinal = 738896, micros = 54000000000, tzinfo = Some 60\<rparr> + HOUR_MICROS"
proof -
  let ?s = "\<lparr>ordinal = 738896, micros = 54000000000, tzinfo = Some 60\<rparr>"
  let ?e = "\<lparr>ordinal = 738896, micros = 57600000000, tzinfo = Some 60\<rparr>"
  let ?late = "\<lparr>ordinal = 3652059, micros = 84600000000, tzinfo = Some 60\<rparr>"
  have a: "dt_add ?s (timedelta_hours 1) = Some ?e"
    by (simp add: dt_add_def timedelta_hours_def HOUR_MICROS_def DAY_MICROS_def MAXORDINAL_def)
  have b: "dt_add ?late (timedelta_hours 1) = None"
    by (simp add: dt_add_def timedelta_hours_def HOUR_MICROS_def DAY_MICROS_def MAXORDINAL_def)
  have c: "parse_event_reply example_lib ''(reply)''
       = Inr [(''summary'', PStr ''riunione''), (''start_time'', PDatetime ?s),
              (''end_time'', PDatetime ?e),
              (''location'', PStr ''ufficio''), (''description'', PStr [])]"
    by (simp add: parse_event_reply_def example_lib_def dict_get_def a)
  have d: "\<not> truthy (dict_get [(''summary'', PStr ''riunione''),
                           (''start_time'', PStr ''2024-01-11 15:00''),
                           (''end_time'', PNone), (''location'', PStr ''ufficio''),
                           (''description'', PStr [])] ''end_time'')"
    by (simp add: dict_get_def)
  note t1 = default_end_one_hour [where s = ?s and svc = example_service
      and summary = "PStr ''riunione''" and description = "PStr []"
      and location = "PStr ''ufficio''" and lib = example_lib and content = "''(reply)''"]
  note t2 = default_end_one_hour [where s = ?late and svc = example_service
      and summary = "PStr ''riunione''" and description = "PStr []"
      and location = "PStr ''ufficio''" and lib = example_lib and content = "''(reply)''"]
  have "\<exists>event. snd (create_event (Some example_service) (PStr ''riunione'')
                     (PDatetime ?s) PNone (PStr []) (PStr ''ufficio'')) = [Insert event]
         \<and> dateTime (ev_end event) = Some ?e"
    using t1 a by blast
  moreover have "snd (create_event (Some example_service) (PStr ''riunione'')
            (PDatetime ?late) PNone (PStr []) (PStr ''ufficio'')) = []"
    using t2 b by blast
  moreover have "timestamp ?e = timestamp ?s + HOUR_MICROS"
    using t1 a by blast
  ultimately show ?thesis using a b c d by blast
qed

lemma truthy_entry:
  assumes "truthy (dict_get d k)"
  shows "\<not> list_all (\<lambda>kv. snd kv = PNone) d"
proof -
  from assms obtain v where v: "map_of d k = Some v" "truthy v"
    by (cases "map_of d k") (auto simp add: dict_get_def)
  then have "(k, v) \<in> set d" by (simp add: map_of_SomeD)
  moreover have "v \<noteq> PNone" using v(2) by auto
  ultimately show ?thesis by (force simp add: list_all_iff)
qed

text \<open>
  C8. When the backend's reply decodes to an object whose values are all null,
  \<open>parse_event_update_request\<close> fails with the "nothing to change" message. A new start
  time that is given (truthy) and does not parse is a failure carrying the parser's error.
  A new end time that is given and does not parse is set to \<open>None\<close> in the directive,
  which is then returned; and an end time in a returned directive is never a computed
  value: when it is a datetime, it is the parsed one.
\<close>

theorem update_extraction:
  assumes "chat (ExtractUpdate text) = Inr (Some raw)"
    and "json_loads lib (strip raw) = Some (PDict reply)"
  shows "((\<forall>kv \<in> set reply. snd kv = PNone) \<longrightarrow>
            parse_event_update_request lib (Some chat) text event_id
              = (Inl nothing_to_change, [ExtractUpdate text]))
       \<and> (truthy (dict_get reply ''start_time'')
            \<and> parse_rome lib (dict_get reply ''start_time'') = Inl x \<longrightarrow>
            parse_event_update_request lib (Some chat) text event_id
              = (Inl (TextExn ''Errore nel parsing della nuova data di inizio: '' x),
                 [ExtractUpdate text]))
       \<and> (truthy (dict_get reply ''end_time'')
            \<and> parse_rome lib (dict_get reply ''end_time'') = Inl y
            \<and> (\<not> truthy (dict_get reply ''start_time'')
                 \<or> (\<exists>s. parse_rome lib (dict_get reply ''start_time'') = Inr s)) \<longrightarrow>
            (\<exists>directive.
                fst (parse_event_update_request lib (Some chat) text event_id) = Inr directive
              \<and> dict_get directive ''end_time'' = PNone
              \<and> dict_get directive ''event_id'' = PStr event_id))
       \<and> (\<forall>directive d.
            fst (parse_event_update_request lib (Some chat) text event_id) = Inr directive
            \<and> dict_get directive ''end_time'' = PDatetime d \<longrightarrow>
            parse_rome lib (dict_get reply ''end_time'') = Inr d)"
proof (intro conjI allI impI)
  assume "\<forall>kv \<in> set reply. snd kv = PNone"
  then show "parse_event_update_request lib (Some chat) text event_id
              = (Inl nothing_to_change, [ExtractUpdate text])"
    using assms
    by (simp add: parse_event_update_request_def parse_update_reply_def list_all_iff)
next
  assume h: "truthy (dict_get reply ''start_time'')
            \<and> parse_rome lib (dict_get reply ''start_time'') = Inl x"
  then show "parse_event_update_request lib (Some chat) text event_id
              = (Inl (TextExn ''Errore nel parsing della nuova data di inizio: '' x),
                 [ExtractUpdate text])"
    using assms truthy_entry [of reply "''start_time''"]
    by (simp add: parse_event_update_request_def parse_update_reply_def)
next
  assume h: "truthy (dict_get reply ''end_time'')
            \<and> parse_rome lib (dict_get reply ''end_time'') = Inl y
            \<and> (\<not> truthy (dict_get reply ''start_time'')
                 \<or> (\<exists>s. parse_rome lib (dict_get reply ''start_time'') = Inr s))"
  then show "\<exists>directive.
                fst (parse_event_update_request lib (Some chat) text event_id) = Inr directive
              \<and> dict_get directive ''end_time'' = PNone
              \<and> dict_get directive ''event_id'' = PStr event_id"
    using assms truthy_entry [of reply "''end_time''"]
    by (auto simp add: parse_event_update_request_def parse_update_reply_def Let_def
        dict_get_update)
next
  fix directive d
  assume h: "fst (parse_event_update_request lib (Some chat) text event_id) = Inr directive
            \<and> dict_get directive ''end_time'' = PDatetime d"
  then show "parse_rome lib (dict_get reply ''end_time'') = Inr d"
    using assms
    by (auto simp add: parse_event_update_request_def parse_update_reply_def Let_def
        dict_get_update split: if_splits sum.splits)
qed

theorem update_extraction_witness:
  "parse_event_update_request example_update_lib (Some example_chat) ''(nulls)'' ''ev1''
     = (Inl nothing_to_change, [ExtractUpdate ''(nulls)''])
   \<and> parse_event_update_request example_update_lib (Some example_chat) ''(bad start)'' ''ev1''
     = (Inl (TextExn ''Errore nel parsing della nuova data di inizio: ''
               (LibraryError ''Unknown string format'')),
        [ExtractUpdate ''(bad start)''])
   \<and> (\<exists>directive.
         fst (parse_event_update_request example_update_lib (Some example_chat)
                ''(bad end)'' ''ev1'') = Inr directive
       \<and> dict_get directive ''end_time'' = PNone
       \<and> dict_get directive ''summary'' = PStr ''Cena''
       \<and> dict_get directive ''event_id'' = PStr ''ev1'')"
proof -
  let ?nulls = "[(''summary'', PNone), (''start_time'', PNone), (''end_time'', PNone),
                 (''location'', PNone), (''description'', PNone)]"
  let ?bad_end = "[(''summary'', PStr ''Cena''), (''start_time'', PNone),
                   (''end_time'', PStr ''tardi''), (''location'', PNone),
                   (''description'', PNone)]"
  let ?bad_start = "[(''summary'', PNone), (''start_time'', PStr ''presto''),
                     (''end_time'', PNone), (''location'', PNone), (''description'', PNone)]"
  have chat: "\<And>t. example_chat (ExtractUpdate t) = Inr (Some t)"
    by (simp add: example_chat_def)
  have s1: "strip ''(nulls)'' = ''(nulls)''"
    by (rule strip_ascii) (simp_all add: is_space_def code_point_def)
  have s2: "strip ''(bad end)'' = ''(bad end)''"
    by (rule strip_ascii) (simp_all add: is_space_def code_point_def)
  have s3: "strip ''(bad start)'' = ''(bad start)''"
    by (rule strip_ascii) (simp_all add: is_space_def code_point_def)
  note s = s1 s2 s3
  have j: "json_loads example_update_lib (strip ''(nulls)'') = Some (PDict ?nulls)"
    "json_loads example_update_lib (strip ''(bad end)'') = Some (PDict ?bad_end)"
    "json_loads example_update_lib (strip ''(bad start)'') = Some (PDict ?bad_start)"
    by (simp_all add: s example_update_lib_def)
  have p: "\<And>v. parse_rome example_update_lib v = Inl (LibraryError ''Unknown string format'')"
    by (simp add: example_update_lib_def)
  have "parse_event_update_request example_update_lib (Some example_chat) ''(nulls)'' ''ev1''
     = (Inl nothing_to_change, [ExtractUpdate ''(nulls)''])"
    using update_extraction [of example_chat "''(nulls)''" "''(nulls)''" example_update_lib
        ?nulls "''ev1''"] chat j(1)
    by simp
  moreover have "parse_event_update_request example_update_lib (Some example_chat)
       ''(bad start)'' ''ev1''
     = (Inl (TextExn ''Errore nel parsing della nuova data di inizio: ''
               (LibraryError ''Unknown string format'')),
        [ExtractUpdate ''(bad start)''])"
    using update_extraction [of example_chat "''(bad start)''" "''(bad start)''"
        example_update_lib ?bad_start "''ev1''" "LibraryError ''Unknown string format''"] chat j(3)
    by (simp add: dict_get_def p)
  moreover have "\<exists>directive.
         fst (parse_event_update_request example_update_lib (Some example_chat)
                ''(bad end)'' ''ev1'') = Inr directive
       \<and> dict_get directive ''end_time'' = PNone
       \<and> dict_get directive ''summary'' = PStr ''Cena''
       \<and> dict_get directive ''event_id'' = PStr ''ev1''"
    using update_extraction [of example_chat "''(bad end)''" "''(bad end)''"
        example_update_lib ?bad_end "''ev1''" _ "LibraryError ''Unknown string format''"] chat j(2)
    by (simp add: dict_get_def p parse_event_update_request_def parse_update_reply_def s
        example_update_lib_def)
  ultimately show ?thesis by blast
qed

text \<open>
  C10 (as amended). With a backend client, an empty candidate list is the failure
  "Non ci sono eventi da eliminare." and a candidate argument that is a text is returned
  as the failure, both without a backend request; without a client the failure is the
  "service unavailable" message, whatever the candidates, also without a request.
\<close>

theorem deletion_without_backend:
  "parse_event_deletion_request lib (Some chat) text (Events [])
     = (Inl (Text ''Non ci sono eventi da eliminare.''), [])
   \<and> parse_event_deletion_request lib (Some chat) text (EventsText error_message)
     = (Inl (Text error_message), [])
   \<and> parse_event_deletion_request lib None text events = (Inl openai_unavailable, [])"
  by (simp add: parse_event_deletion_request_def)


theorem deletion_without_backend_witness:
  "parse_event_deletion_request example_lib (Some example_chat) ''la riunione'' (Events [])
     = (Inl (Text ''Non ci sono eventi da eliminare.''), [])
   \<and> parse_event_deletion_request example_lib (Some example_chat) ''la riunione''
       (EventsText ''Nessun evento in programma.'')
     = (Inl (Text ''Nessun evento in programma.''), [])"
  using deletion_without_backend [of example_lib example_chat "''la riunione''"
      "''Nessun evento in programma.''"]
  by simp

theorem deletion_without_client_counterexample:
  "parse_event_deletion_request example_lib None ''la riunione'' (Events [])
     = (Inl openai_unavailable, [])
   \<and> openai_unavailable \<noteq> Text ''Non ci sono eventi da eliminare.''
   \<and> parse_event_deletion_request example_lib None ''la riunione''
       (EventsText ''Nessun evento in programma.'')
     = (Inl openai_unavailable, [])
   \<and> openai_unavailable \<noteq> Text ''Nessun evento in programma.''"
  by (simp add: parse_event_deletion_request_def openai_unavailable_def)

section \<open>Properties of the conversation handlers\<close>

lemma replace_char_idem:
  "new \<noteq> old \<Longrightarrow> replace_char old new (replace_char old new s) = replace_char old new s"
  by (induction s) (simp_all add: replace_char_def)

text \<open>
  C6. The amount handler parses the text after replacing every comma by a dot, so a text
  and the same text written with dots have the same outcome (the same stored amount or
  the same re-prompt), for instance "12,50" and "12.50"; and replacing commas in a text
  whose commas are already replaced changes nothing.
\<close>

theorem amount_comma_dot:
  "add_expense_amount w ud (replace_char CHR '','' CHR ''.'' text) = add_expense_amount w ud text
   \<and> replace_char CHR '','' CHR ''.'' (replace_char CHR '','' CHR ''.'' text)
       = replace_char CHR '','' CHR ''.'' text
   \<and> replace_char CHR '','' CHR ''.'' ''12,50'' = ''12.50''
   \<and> add_expense_amount w ud ''12,50'' = add_expense_amount w ud ''12.50''"
proof -
  have i: "\<And>s. replace_char CHR '','' CHR ''.'' (replace_char CHR '','' CHR ''.'' s)
       = replace_char CHR '','' CHR ''.'' s"
    by (rule replace_char_idem) simp
  have e: "replace_char CHR '','' CHR ''.'' ''12,50'' = ''12.50''"
    "replace_char CHR '','' CHR ''.'' ''12.50'' = ''12.50''"
    by (simp_all add: replace_char_def)
  show ?thesis
    by (simp add: add_expense_amount_def i e)
qed

theorem amount_comma_dot_witness:
  "add_expense_amount example_world [] ''12,50'' = add_expense_amount example_world [] ''12.50''
   \<and> returned (add_expense_amount example_world [] ''12,50'') = Inr EXPENSE_CATEGORY
   \<and> scratch (add_expense_amount example_world [] ''12,50'') = [(''expense_amount'', UFloat 12.5)]
   \<and> returned (add_expense_amount example_world [] ''dodici'') = Inr EXPENSE_AMOUNT
   \<and> scratch (add_expense_amount example_world [] ''dodici'') = []"
  using amount_comma_dot [of example_world "[]" "''12,50''"]
  by (simp add: add_expense_amount_def example_world_def replace_char_def)

lemma find_none:
  "(\<forall>event \<in> set evs. le_id event \<noteq> t) \<Longrightarrow> find (\<lambda>event. le_id event = t) evs = None"
  by (simp add: find_None_iff)

lemma str_of_nat_match:
  "match_number tbl (str_of_nat n) = Some (map (\<lambda>c. [c]) (str_of_nat n))"
  by (rule ascii_digits_match) (rule str_of_nat_digits)

lemma numeral_reply:
  "lower (strip (str_of_nat j)) = str_of_nat j"
  "\<not> contains ''non trovato'' (str_of_nat j)"
  "search_digits tbl (str_of_nat j) = Some (map (\<lambda>c. [c]) (str_of_nat j))"
proof -
  have d: "ascii_digits (str_of_nat j)" by (rule str_of_nat_digits)
  show "lower (strip (str_of_nat j)) = str_of_nat j"
    by (simp add: ascii_digits_strip [OF d] ascii_digits_lower [OF d])
  show "\<not> contains ''non trovato'' (str_of_nat j)"
    using d by (intro digits_contain_no_letters) (simp add: ascii_digits_def)
  show "search_digits tbl (str_of_nat j) = Some (map (\<lambda>c. [c]) (str_of_nat j))"
    by (rule ascii_digits_search [OF d])
qed

text \<open>
  With a number in range the selection step deletes the event at that position; with
  any other text that is no listed id, its outcome is the extractor's result.
\<close>

lemma selection_in_range:
  assumes "find (\<lambda>event. le_id event = str_of_nat i) (events_of ud) = None"
    and "1 \<le> i" and "i \<le> length (events_of ud)"
  shows "delete_event_selection w ud (str_of_nat i)
           = delete_event_confirmation w ud (le_id (events_of ud ! (i - 1)))"
proof -
  from assms(2,3) have "nat (int i - 1) = i - 1" "0 \<le> int i - 1"
    "int i - 1 < int (length (events_of ud))"
    by auto
  then show ?thesis
    by (simp add: delete_event_selection_def Let_def assms(1) str_of_nat_match
        int_of_digits_str list_index_def)
qed

lemma selection_out_of_range:
  assumes "find (\<lambda>event. le_id event = str_of_nat i) (events_of ud) = None"
    and "i = 0 \<or> length (events_of ud) < i"
  shows "delete_event_selection w ud (str_of_nat i)
           = (case parse_event_deletion_request (w_lib w) (w_openai w) (str_of_nat i)
                     (Events (events_of ud)) of
                (Inl error, requests) \<Rightarrow> reported_failure ud requests error
              | (Inr event_id, requests) \<Rightarrow> deletion_after w ud requests event_id)"
proof -
  from assms(2) have c: "(0 < i \<and> int i - 1 < int (length (events_of ud))) = False"
    by auto
  obtain result requests
    where p: "parse_event_deletion_request (w_lib w) (w_openai w) (str_of_nat i)
                (Events (events_of ud)) = (result, requests)"
    by (cases "parse_event_deletion_request (w_lib w) (w_openai w) (str_of_nat i)
                (Events (events_of ud))")
  have d: "\<And>event_id.
      (delete_event_confirmation w ud event_id)
         \<lparr>effects := wait_processing # map Backend requests @ RemoveWait
            # effects (delete_event_confirmation w ud event_id)\<rparr>
      = deletion_after w ud requests event_id"
    by (simp add: deletion_after_def delete_event_confirmation_def split: prod.splits)
  show ?thesis
    by (cases result)
       (simp_all add: delete_event_selection_def Let_def assms(1) str_of_nat_match
          int_of_digits_str p c d reported_failure_def)
qed

text \<open>The extractor's result for each reply of the backend.\<close>

lemma extractor_without_client:
  "parse_event_deletion_request lib None t events = (Inl openai_unavailable, [])"
  by (simp add: parse_event_deletion_request_def)

lemma extractor_no_events:
  "parse_event_deletion_request lib (Some chat) t (Events [])
     = (Inl (Text ''Non ci sono eventi da eliminare.''), [])"
  by (simp add: parse_event_deletion_request_def)

lemma extractor_request_raises:
  assumes "evs \<noteq> []" and "chat (ResolveDeletion (events_text 1 evs) t) = Inl e"
  shows "parse_event_deletion_request lib (Some chat) t (Events evs)
           = (Inl (request_failed e), [ResolveDeletion (events_text 1 evs) t])"
  using assms by (simp add: parse_event_deletion_request_def Let_def)

lemma extractor_no_content:
  assumes "evs \<noteq> []" and "chat (ResolveDeletion (events_text 1 evs) t) = Inr None"
  shows "parse_event_deletion_request lib (Some chat) t (Events evs)
           = (Inl (request_failed AttributeError), [ResolveDeletion (events_text 1 evs) t])"
  using assms by (simp add: parse_event_deletion_request_def Let_def)

lemma extractor_not_identified:
  assumes "evs \<noteq> []" and "chat (ResolveDeletion (events_text 1 evs) t) = Inr (Some raw)"
    and "contains ''non trovato'' (lower (strip raw))
         \<or> search_digits (unicode_decimal lib) (lower (strip raw)) = None"
  shows "parse_event_deletion_request lib (Some chat) t (Events evs)
           = (Inl not_identified, [ResolveDeletion (events_text 1 evs) t])"
  using assms by (auto simp add: parse_event_deletion_request_def Let_def)

lemma extractor_number_in_range:
  assumes "evs \<noteq> []" and "chat (ResolveDeletion (events_text 1 evs) t) = Inr (Some raw)"
    and "\<not> contains ''non trovato'' (lower (strip raw))"
    and "search_digits (unicode_decimal lib) (lower (strip raw)) = Some ds"
    and "1 \<le> int_of_digits (unicode_decimal lib) ds"
    and "int_of_digits (unicode_decimal lib) ds \<le> int (length evs)"
  shows "parse_event_deletion_request lib (Some chat) t (Events evs)
           = (Inr (le_id (evs ! (nat (int_of_digits (unicode_decimal lib) ds) - 1))),
              [ResolveDeletion (events_text 1 evs) t])"
proof -
  have "nat (int_of_digits (unicode_decimal lib) ds - 1)
          = nat (int_of_digits (unicode_decimal lib) ds) - 1"
    by simp
  with assms show ?thesis
    by (simp add: parse_event_deletion_request_def Let_def list_index_def)
qed

lemma extractor_number_out_of_range:
  assumes "evs \<noteq> []" and "chat (ResolveDeletion (events_text 1 evs) t) = Inr (Some raw)"
    and "\<not> contains ''non trovato'' (lower (strip raw))"
    and "search_digits (unicode_decimal lib) (lower (strip raw)) = Some ds"
    and "int_of_digits (unicode_decimal lib) ds < 1
         \<or> int (length evs) < int_of_digits (unicode_decimal lib) ds"
  shows "parse_event_deletion_request lib (Some chat) t (Events evs)
           = (Inl (Text ''Numero evento non valido.''),
              [ResolveDeletion (events_text 1 evs) t])"
  using assms by (auto simp add: parse_event_deletion_request_def Let_def)


text \<open>
  C4 (as amended). In the delete flow with the events \<open>evs\<close> listed, when no listed event
  has the input text as its id, the decimal numeral of an index \<open>i\<close> with
  \<open>1 \<le> i \<le> length evs\<close> resolves to the id of the \<open>i\<close>-th listed event. The numeral of
  an index out of range never raises; the text goes to the extractor, and the outcome is
  fixed by the backend's reply. It is a reported failure (the state stays the selection
  state, the session is unchanged, the calendar is not called) when there is no client,
  when no event is listed, when the request raises or has no content, when the reply
  contains "non trovato" or no digit, and when the first number in the reply is not an
  index of the list. When the first number \<open>j\<close> in the reply is an index of the list, the
  \<open>j\<close>-th listed event is deleted. In particular a backend that replies with the numeral
  of \<open>j\<close> deletes the \<open>j\<close>-th event for \<open>1 \<le> j \<le> length evs\<close> and gives the failure
  "Numero evento non valido." for every other \<open>j\<close>.
\<close>

theorem delete_by_number:
  assumes "\<forall>event \<in> set (events_of ud). le_id event \<noteq> str_of_nat i"
    and "evs = events_of ud"
    and "tbl = unicode_decimal (w_lib w)"
    and "request = ResolveDeletion (events_text 1 evs) (str_of_nat i)"
    and "out = delete_event_selection w ud (str_of_nat i)"
  shows
    "(1 \<le> i \<and> i \<le> length evs \<longrightarrow>
        out = delete_event_confirmation w ud (le_id (evs ! (i - 1))))
   \<and> (i = 0 \<or> length evs < i \<longrightarrow>
        returned out \<noteq> Inl raised
      \<and> (w_openai w = None \<longrightarrow> out = reported_failure ud [] openai_unavailable)
      \<and> (w_openai w = Some chat \<longrightarrow>
           (evs = [] \<longrightarrow>
              out = reported_failure ud [] (Text ''Non ci sono eventi da eliminare.''))
         \<and> (evs \<noteq> [] \<longrightarrow>
              (chat request = Inl e \<longrightarrow>
                 out = reported_failure ud [request] (request_failed e))
            \<and> (chat request = Inr None \<longrightarrow>
                 out = reported_failure ud [request] (request_failed AttributeError))
            \<and> (chat request = Inr (Some raw) \<longrightarrow>
                 (contains ''non trovato'' (lower (strip raw))
                  \<or> search_digits tbl (lower (strip raw)) = None \<longrightarrow>
                    out = reported_failure ud [request] not_identified)
               \<and> (\<not> contains ''non trovato'' (lower (strip raw))
                  \<and> search_digits tbl (lower (strip raw)) = Some ds \<longrightarrow>
                    (1 \<le> int_of_digits tbl ds \<and> int_of_digits tbl ds \<le> int (length evs) \<longrightarrow>
                       out = deletion_after w ud [request]
                               (le_id (evs ! (nat (int_of_digits tbl ds) - 1))))
                  \<and> (int_of_digits tbl ds < 1 \<or> int (length evs) < int_of_digits tbl ds \<longrightarrow>
                       out = reported_failure ud [request]
                               (Text ''Numero evento non valido.''))))
            \<and> (chat request = Inr (Some (str_of_nat j)) \<longrightarrow>
                 (1 \<le> j \<and> j \<le> length evs \<longrightarrow>
                    out = deletion_after w ud [request] (le_id (evs ! (j - 1))))
               \<and> (j = 0 \<or> length evs < j \<longrightarrow>
                    out = reported_failure ud [request]
                            (Text ''Numero evento non valido.''))))))
   \<and> returned (reported_failure ud requests error) = Inr CALENDAR_EVENT_SELECTION
   \<and> scratch (reported_failure ud requests error) = ud
   \<and> Calendar sent \<notin> set (effects (reported_failure ud requests error))"
proof -
  let ?t = "str_of_nat i"
  let ?rq = "ResolveDeletion (events_text 1 (events_of ud)) ?t"
  let ?lib = "w_lib w"
  have f: "find (\<lambda>event. le_id event = ?t) (events_of ud) = None"
    using assms(1) by (rule find_none)
  have in_range: "out = delete_event_confirmation w ud (le_id (evs ! (i - 1)))"
    if "1 \<le> i \<and> i \<le> length evs"
    using that selection_in_range [OF f, of w] by (simp add: assms(2,5))
  have fall: "out = (case parse_event_deletion_request ?lib (w_openai w) ?t
                            (Events (events_of ud)) of
                       (Inl error, requests) \<Rightarrow> reported_failure ud requests error
                     | (Inr event_id, requests) \<Rightarrow> deletion_after w ud requests event_id)"
    if "i = 0 \<or> length evs < i"
    using that selection_out_of_range [OF f, of w] by (simp add: assms(2,5))
  have never: "returned out \<noteq> Inl e" if o: "i = 0 \<or> length evs < i" for e
    by (simp add: fall [OF o] reported_failure_def deletion_after_def
        split: prod.splits sum.splits)
  have a: "out = reported_failure ud [] openai_unavailable"
    if o: "i = 0 \<or> length evs < i" and "w_openai w = None"
    using that(2) by (simp add: fall [OF o] extractor_without_client)
  have b: "out = reported_failure ud [] (Text ''Non ci sono eventi da eliminare.'')"
    if o: "i = 0 \<or> length evs < i" and "w_openai w = Some chat" and "evs = []" for chat
    using that(2,3) assms(2) by (simp add: fall [OF o] extractor_no_events)
  have c: "out = reported_failure ud [request] (request_failed e)"
    if o: "i = 0 \<or> length evs < i" and "w_openai w = Some chat" and "evs \<noteq> []"
      and "chat request = Inl e" for chat e
    using that(2-4) assms(2,4)
    by (simp add: fall [OF o] extractor_request_raises [of "events_of ud" chat ?t e])
  have d: "out = reported_failure ud [request] (request_failed AttributeError)"
    if o: "i = 0 \<or> length evs < i" and "w_openai w = Some chat" and "evs \<noteq> []"
      and "chat request = Inr None" for chat
    using that(2-4) assms(2,4)
    by (simp add: fall [OF o] extractor_no_content [of "events_of ud" chat ?t])
  have e: "out = reported_failure ud [request] not_identified"
    if o: "i = 0 \<or> length evs < i" and "w_openai w = Some chat" and "evs \<noteq> []"
      and "chat request = Inr (Some raw)"
      and "contains ''non trovato'' (lower (strip raw))
           \<or> search_digits tbl (lower (strip raw)) = None" for chat raw
    using that(2-5) assms(2,3,4)
    by (simp add: fall [OF o] extractor_not_identified [of "events_of ud" chat ?t raw ?lib])
  have g: "out = deletion_after w ud [request]
                   (le_id (evs ! (nat (int_of_digits tbl ds) - 1)))"
    if o: "i = 0 \<or> length evs < i" and "w_openai w = Some chat" and "evs \<noteq> []"
      and "chat request = Inr (Some raw)"
      and "\<not> contains ''non trovato'' (lower (strip raw))"
      and "search_digits tbl (lower (strip raw)) = Some ds"
      and "1 \<le> int_of_digits tbl ds" and "int_of_digits tbl ds \<le> int (length evs)"
    for chat raw ds
    using that(2-8) assms(2,3,4)
    by (simp add: fall [OF o]
        extractor_number_in_range [of "events_of ud" chat ?t raw ?lib ds])
  have h: "out = reported_failure ud [request] (Text ''Numero evento non valido.'')"
    if o: "i = 0 \<or> length evs < i" and "w_openai w = Some chat" and "evs \<noteq> []"
      and "chat request = Inr (Some raw)"
      and "\<not> contains ''non trovato'' (lower (strip raw))"
      and "search_digits tbl (lower (strip raw)) = Some ds"
      and "int_of_digits tbl ds < 1 \<or> int (length evs) < int_of_digits tbl ds"
    for chat raw ds
    using that(2-7) assms(2,3,4)
    by (simp add: fall [OF o]
        extractor_number_out_of_range [of "events_of ud" chat ?t raw ?lib ds])
  have k: "out = deletion_after w ud [request] (le_id (evs ! (j - 1)))"
    if o: "i = 0 \<or> length evs < i" and "w_openai w = Some chat" and "evs \<noteq> []"
      and "chat request = Inr (Some (str_of_nat j))" and "1 \<le> j" and "j \<le> length evs"
    for chat j
    using g [OF o that(2-4), of "map (\<lambda>c. [c]) (str_of_nat j)"] that(5,6)
    by (simp add: numeral_reply int_of_digits_str)
  have l: "out = reported_failure ud [request] (Text ''Numero evento non valido.'')"
    if o: "i = 0 \<or> length evs < i" and "w_openai w = Some chat" and "evs \<noteq> []"
      and "chat request = Inr (Some (str_of_nat j))" and "j = 0 \<or> length evs < j"
    for chat j
    using h [OF o that(2-4), of "map (\<lambda>c. [c]) (str_of_nat j)"] that(5)
    by (auto simp add: numeral_reply int_of_digits_str)
  have m: "returned (reported_failure ud requests error) = Inr CALENDAR_EVENT_SELECTION"
    "scratch (reported_failure ud requests error) = ud"
    "Calendar sent \<notin> set (effects (reported_failure ud requests error))"
    by (auto simp add: reported_failure_def wait_processing_def)
  show ?thesis
    by (intro conjI impI allI; (elim conjE)?)
       (fact in_range never a b c d e g h k l m | rule in_range never a b c d e g h k l
          | simp add: in_range m)+
qed


theorem delete_by_number_witness:
  "str_of_nat 2 = ''2'' \<and> str_of_nat 5 = ''5'' \<and> str_of_nat 0 = ''0''
   \<and> delete_event_selection example_world example_session ''2''
       = delete_event_confirmation example_world example_session ''ev1''
   \<and> Calendar (Delete ''ev1'')
       \<in> set (effects (delete_event_selection example_world example_session ''2''))
   \<and> delete_event_selection (example_world\<lparr>w_openai := Some example_echo\<rparr>)
        example_session ''5''
       = reported_failure example_session
           [ResolveDeletion (events_text 1 (events_of example_session)) ''5'']
           (Text ''Numero evento non valido.'')
   \<and> delete_event_selection (example_world\<lparr>w_openai := Some example_echo\<rparr>)
        example_session ''0''
       = reported_failure example_session
           [ResolveDeletion (events_text 1 (events_of example_session)) ''0'']
           (Text ''Numero evento non valido.'')
   \<and> returned (delete_event_selection (example_world\<lparr>w_openai := Some example_echo\<rparr>)
                 example_session ''5'') = Inr CALENDAR_EVENT_SELECTION
   \<and> scratch (delete_event_selection (example_world\<lparr>w_openai := Some example_echo\<rparr>)
                 example_session ''5'') = example_session
   \<and> delete_event_selection example_world example_session ''5''
       = deletion_after example_world example_session
           [ResolveDeletion (events_text 1 (events_of example_session)) ''5''] ''ev1''
   \<and> delete_event_selection (example_world\<lparr>w_openai := None\<rparr>) example_session ''5''
       = reported_failure example_session [] openai_unavailable"
proof -
  let ?echo = "example_world\<lparr>w_openai := Some example_echo\<rparr>"
  let ?none = "example_world\<lparr>w_openai := None\<rparr>"
  let ?listing = "events_text 1 (events_of example_session)"
  have s2: "str_of_nat 2 = ''2''" by code_simp
  have s5: "str_of_nat 5 = ''5''" by code_simp
  have s0: "str_of_nat 0 = ''0''" by code_simp
  note s = s2 s5 s0
  have evs: "events_of example_session
      = [\<lparr>le_id = ''ev0'', le_summary = ''Dentista'', le_start = ''10/01/2024 09:00'',
           le_location = [], le_description = []\<rparr>,
         \<lparr>le_id = ''ev1'', le_summary = ''Riunione'', le_start = ''10/01/2024 15:00'',
           le_location = ''Ufficio'', le_description = ''Progetto''\<rparr>]"
    by (simp add: events_of_def example_session_def)
  have n: "length (events_of example_session) = 2" "events_of example_session \<noteq> []"
    "le_id (events_of example_session ! Suc 0) = ''ev1''"
    by (simp_all add: evs)
  have a2: "\<forall>event \<in> set (events_of example_session). le_id event \<noteq> str_of_nat 2"
    and a5: "\<forall>event \<in> set (events_of example_session). le_id event \<noteq> str_of_nat 5"
    and a0: "\<forall>event \<in> set (events_of example_session). le_id event \<noteq> str_of_nat 0"
    by (simp_all add: s evs)
  have clients: "w_openai ?echo = Some example_echo" "w_openai ?none = None"
    "w_openai example_world = Some example_chat"
    by (simp_all add: example_world_def)
  have echo: "\<And>t. example_echo (ResolveDeletion ?listing t) = Inr (Some t)"
    by (simp add: example_echo_def)
  have chat: "\<And>t. example_chat (ResolveDeletion ?listing t) = Inr (Some (str_of_nat 2))"
    by (simp add: example_chat_def s)
  have r2: "delete_event_selection example_world example_session ''2''
       = delete_event_confirmation example_world example_session ''ev1''"
    using delete_by_number [where ud = example_session and i = 2 and w = example_world,
        OF a2 refl refl refl refl]
    by (simp add: s n)
  have d: "Calendar (Delete ''ev1'')
       \<in> set (effects (delete_event_confirmation example_world example_session ''ev1''))"
    by (simp add: delete_event_confirmation_def delete_event_def example_world_def
        example_service_def)
  have e5: "delete_event_selection ?echo example_session ''5''
       = reported_failure example_session [ResolveDeletion ?listing ''5'']
           (Text ''Numero evento non valido.'')"
    using delete_by_number [where ud = example_session and i = 5 and w = ?echo
          and chat = example_echo and j = 5, OF a5 refl refl refl refl]
      echo [of "str_of_nat 5"] clients(1)
    by (simp add: s n)
  have e0: "delete_event_selection ?echo example_session ''0''
       = reported_failure example_session [ResolveDeletion ?listing ''0'']
           (Text ''Numero evento non valido.'')"
    using delete_by_number [where ud = example_session and i = 0 and w = ?echo
          and chat = example_echo and j = 0, OF a0 refl refl refl refl]
      echo [of "str_of_nat 0"] clients(1)
    by (simp add: s n)
  have f5: "returned (reported_failure example_session [ResolveDeletion ?listing ''5'']
                        (Text ''Numero evento non valido.'')) = Inr CALENDAR_EVENT_SELECTION"
    "scratch (reported_failure example_session [ResolveDeletion ?listing ''5'']
                        (Text ''Numero evento non valido.'')) = example_session"
    using delete_by_number [where ud = example_session and i = 5 and w = ?echo,
        OF a5 refl refl refl refl]
    by simp_all
  have c5: "delete_event_selection example_world example_session ''5''
       = deletion_after example_world example_session
           [ResolveDeletion ?listing ''5''] ''ev1''"
    using delete_by_number [where ud = example_session and i = 5 and w = example_world
          and chat = example_chat and j = 2, OF a5 refl refl refl refl]
      chat [of "str_of_nat 5"] clients(3)
    by (simp add: s n)
  have n5: "delete_event_selection ?none example_session ''5''
       = reported_failure example_session [] openai_unavailable"
    using delete_by_number [where ud = example_session and i = 5 and w = ?none,
        OF a5 refl refl refl refl]
      clients(2)
    by (simp add: s n)
  show ?thesis
    using s r2 d e5 e0 f5 c5 n5 by simp
qed

theorem delete_by_number_counterexample:
  "length (events_of example_session) = 2
   \<and> match_number (unicode_decimal (w_lib example_world)) ''5'' = Some [''5'']
   \<and> int_of_digits (unicode_decimal (w_lib example_world)) [''5''] = 5
   \<and> returned (delete_event_selection example_world example_session ''5'') = Inr END
   \<and> scratch (delete_event_selection example_world example_session ''5'') = []
   \<and> Calendar (Delete ''ev1'')
       \<in> set (effects (delete_event_selection example_world example_session ''5''))
   \<and> match_number (unicode_decimal (w_lib example_world)) ''2'' = Some [''2'']
   \<and> int_of_digits (unicode_decimal (w_lib example_world)) [''2''] = 2
   \<and> le_id (\<lparr>le_id = ''ev0'', le_summary = ''Dentista'', le_start = [],
              le_location = [], le_description = []\<rparr>) = ''ev0''
   \<and> delete_event_selection example_world
        [(''events'',
          UEvents [\<lparr>le_id = ''ev1'', le_summary = ''Riunione'', le_start = [],
                    le_location = [], le_description = []\<rparr>,
                   \<lparr>le_id = ''ev0'', le_summary = ''Dentista'', le_start = [],
                    le_location = [], le_description = []\<rparr>,
                   \<lparr>le_id = ''2'', le_summary = ''Cena'', le_start = [],
                    le_location = [], le_description = []\<rparr>])] ''2''
      = delete_event_confirmation example_world
        [(''events'',
          UEvents [\<lparr>le_id = ''ev1'', le_summary = ''Riunione'', le_start = [],
                    le_location = [], le_description = []\<rparr>,
                   \<lparr>le_id = ''ev0'', le_summary = ''Dentista'', le_start = [],
                    le_location = [], le_description = []\<rparr>,
                   \<lparr>le_id = ''2'', le_summary = ''Cena'', le_start = [],
                    le_location = [], le_description = []\<rparr>])] ''2''"
  by (simp add: events_of_def example_session_def match_number_def is_digit_def
      digit_value_def code_point_def utf8_width_def
      int_of_digits_def delete_event_selection_def delete_event_confirmation_def
      delete_event_def parse_event_deletion_request_def example_world_def example_chat_def
      example_service_def strip_def lower_def lower_char_def is_space_def search_digits_def
      list_index_def END_def wait_processing_def)

text \<open>
  A number written in other decimal digits is a number too: with the Arabic-Indic digits
  in the table, the digit two (U+0662) chooses the second event.
\<close>

lemma delete_by_unicode_number:
  "delete_event_selection example_world example_session [CHR 0xD9, CHR 0xA2]
     = delete_event_confirmation example_world example_session ''ev1''"
  by (simp add: delete_event_selection_def events_of_def example_session_def
      match_number_def is_digit_def digit_value_def code_point_def utf8_width_def
      int_of_digits_def list_index_def example_world_def example_lib_def)

text \<open>
  How each handler ends a conversation. The steps that call an adapter's mutation end it
  with \<open>user_data\<close> empty whenever they return, whatever the adapter's result.
\<close>

lemma state_constants:
  "EXPENSE_AMOUNT \<noteq> END" "EXPENSE_CATEGORY \<noteq> END" "EXPENSE_DESCRIPTION \<noteq> END"
  "CALENDAR_EVENT_DESCRIPTION \<noteq> END" "CALENDAR_EVENT_CONFIRMATION \<noteq> END"
  "CALENDAR_EVENT_SELECTION \<noteq> END" "CALENDAR_EVENT_UPDATE \<noteq> END"
  by (simp_all add: EXPENSE_AMOUNT_def EXPENSE_CATEGORY_def EXPENSE_DESCRIPTION_def
      CALENDAR_EVENT_DESCRIPTION_def CALENDAR_EVENT_CONFIRMATION_def
      CALENDAR_EVENT_SELECTION_def CALENDAR_EVENT_UPDATE_def END_def)

lemma add_expense_amount_continues:
  "returned (add_expense_amount w ud t) \<noteq> Inr END"
  by (simp add: add_expense_amount_def state_constants split: option.splits)

lemma add_expense_category_continues:
  "returned (add_expense_category ud d) \<noteq> Inr END"
  by (simp add: add_expense_category_def Let_def state_constants)

lemma add_expense_end_exit:
  "returned (add_expense_end w ud) = Inr r \<Longrightarrow>
   r = END \<and> scratch (add_expense_end w ud) = []"
  by (cases "add_expense (w_float w) (w_spreadsheet w) (w_now w)
        (case map_of ud ''expense_amount'' of
           Some (UFloat a) \<Rightarrow> AmountFloat a | Some (UStr s) \<Rightarrow> AmountStr s | _ \<Rightarrow> AmountNone)
        (case map_of ud ''expense_category'' of Some (UStr c) \<Rightarrow> Some c | _ \<Rightarrow> None)
        (case map_of ud ''expense_description'' of Some (UStr d) \<Rightarrow> d | _ \<Rightarrow> [])")
     (auto simp add: add_expense_end_def Let_def)

lemma add_event_description_continues:
  "returned (add_event_description w ud t) \<noteq> Inr END"
proof -
  obtain result requests
    where p: "parse_event_request (w_lib w) (w_openai w) t = (result, requests)"
    by (cases "parse_event_request (w_lib w) (w_openai w) t")
  show ?thesis
    by (cases result)
       (auto simp add: add_event_description_def Let_def p state_constants
          split: option.splits pyval.splits)
qed

lemma create_event_success:
  "fst (create_event service summary start_time end_time description location) = Inr i
   \<Longrightarrow> \<exists>s. start_time = PDatetime s"
  by (cases start_time)
     (auto simp add: create_event_def Let_def split: option.splits)

lemma add_event_confirmation_exit:
  assumes "returned (add_event_confirmation w ud d) = Inr r"
  shows "r = END \<and> scratch (add_event_confirmation w ud d) = []"
proof (cases "d = ''event_cancel''")
  case True
  with assms show ?thesis by (simp add: add_event_confirmation_def)
next
  case False
  from assms False obtain event_data
    where ed: "map_of ud ''event_data'' = Some (UDict event_data)"
    by (auto simp add: add_event_confirmation_def split: option.splits udval.splits)
  from assms False ed obtain summary start_time end_time
    where k: "map_of event_data ''summary'' = Some summary"
      "map_of event_data ''start_time'' = Some start_time"
      "map_of event_data ''end_time'' = Some end_time"
    by (auto simp add: add_event_confirmation_def split: option.splits)
  obtain result requests
    where c: "create_event (w_calendar w) summary start_time end_time
                (dict_get_default event_data ''description'')
                (dict_get_default event_data ''location'') = (result, requests)"
    by (cases "create_event (w_calendar w) summary start_time end_time
                (dict_get_default event_data ''description'')
                (dict_get_default event_data ''location'')")
  show ?thesis
  proof (cases result)
    case (Inl error)
    with assms show ?thesis
      using False by (simp add: add_event_confirmation_def ed k c)
  next
    case (Inr event_id)
    then obtain s where st: "start_time = PDatetime s"
      using create_event_success [of "w_calendar w" summary start_time end_time
          "dict_get_default event_data ''description''"
          "dict_get_default event_data ''location''" event_id] c
      by auto
    have c': "create_event (w_calendar w) summary (PDatetime s) end_time
                (dict_get_default event_data ''description'')
                (dict_get_default event_data ''location'') = (Inr event_id, requests)"
      using c Inr st by simp
    from assms show ?thesis
      using False by (simp add: add_event_confirmation_def ed k(1,3) k(2) [unfolded st] c')
  qed
qed

lemma update_event_changes_exit:
  assumes "map_of ud ''event_id'' = Some (UStr event_id)" and "event_id \<noteq> []"
    and "returned (update_event_changes w ud t) = Inr r"
  shows "r = END \<and> scratch (update_event_changes w ud t) = []"
proof -
  obtain result requests
    where p: "parse_event_update_request (w_lib w) (w_openai w) t event_id = (result, requests)"
    by (cases "parse_event_update_request (w_lib w) (w_openai w) t event_id")
  show ?thesis
  proof (cases result)
    case (Inl error)
    with assms show ?thesis by (simp add: update_event_changes_def p)
  next
    case (Inr directive)
    with assms p obtain target where g: "map_of directive ''event_id'' = Some (PStr target)"
      by (auto simp add: update_event_changes_def Let_def split: option.splits pyval.splits)
    from assms show ?thesis
      by (simp add: update_event_changes_def Let_def p Inr g split: prod.splits)
  qed
qed

lemma delete_event_confirmation_exit:
  "returned (delete_event_confirmation w ud i) = Inr END
   \<and> scratch (delete_event_confirmation w ud i) = []"
  by (simp add: delete_event_confirmation_def split: prod.splits)

lemma delete_event_selection_exit:
  assumes "returned (delete_event_selection w ud t) = Inr END"
  shows "scratch (delete_event_selection w ud t) = []"
proof -
  obtain result requests
    where p: "parse_event_deletion_request (w_lib w) (w_openai w) t (Events (events_of ud))
                = (result, requests)"
    by (cases "parse_event_deletion_request (w_lib w) (w_openai w) t (Events (events_of ud))")
  show ?thesis
    using assms delete_event_confirmation_exit [of w ud]
    by (cases result)
       (auto simp add: delete_event_selection_def Let_def p list_index_def state_constants
          split: option.splits if_splits)
qed

lemma cancel_exit: "returned (cancel ud) = Inr END \<and> scratch (cancel ud) = []"
  by (simp add: cancel_def)

lemma fallback_exit:
  "fallback ud u = Some out \<Longrightarrow> returned out = Inr END \<and> scratch out = []"
  by (auto simp add: fallback_def cancel_def split: update.splits if_splits)

lemma state_handler_cancel:
  "state_handler w fl st ud (Command ''cancel'' args) = None"
  by (simp add: state_handler_def split: flow.splits)

lemma update_event_selection_exit:
  assumes "returned (update_event_selection ud d) = Inr END"
    and "scratch (update_event_selection ud d) \<noteq> []"
  shows "d \<noteq> ''event_cancel''
     \<and> find (\<lambda>event. le_id event = remove_sub ''event_'' d)
          (events_of (AList.update ''event_id'' (UStr (remove_sub ''event_'' d)) ud)) = None"
  using assms
  by (auto simp add: update_event_selection_def Let_def state_constants
      split: if_splits option.splits)

lemma update_event_changes_kept:
  assumes "returned (update_event_changes w ud t) = Inr END"
    and "scratch (update_event_changes w ud t) \<noteq> []"
  shows "missing_event_id ud (TextMessage t)"
proof (rule ccontr)
  assume "\<not> missing_event_id ud (TextMessage t)"
  then obtain i where "map_of ud ''event_id'' = Some (UStr i)" "i \<noteq> []"
    by (auto simp add: missing_event_id_def split: option.splits udval.splits)
  from update_event_changes_exit [OF this assms(1)] assms(2) show False by simp
qed

lemma state_handler_exit:
  assumes "state_handler w fl st ud u = Some out" and "returned out = Inr END"
    and "scratch out \<noteq> []"
  shows "fl = UpdateEventFlow
     \<and> (st = CALENDAR_EVENT_SELECTION \<and> unlisted_selection ud u
        \<or> st = CALENDAR_EVENT_UPDATE \<and> missing_event_id ud u)"
proof (cases fl)
  case ExpenseFlow
  with assms show ?thesis
    using add_expense_amount_continues add_expense_category_continues add_expense_end_exit
    by (auto simp add: state_handler_def skip_expense_description_def
        add_expense_description_def split: if_splits update.splits)
next
  case EventFlow
  with assms show ?thesis
    using add_event_description_continues add_event_confirmation_exit
    by (auto simp add: state_handler_def split: if_splits update.splits)
next
  case UpdateEventFlow
  with assms show ?thesis
    using update_event_selection_exit update_event_changes_kept
    by (auto simp add: state_handler_def unlisted_selection_def
        split: if_splits update.splits)
next
  case DeleteEventFlow
  with assms show ?thesis
    using delete_event_selection_exit
    by (auto simp add: state_handler_def split: if_splits update.splits)
qed

text \<open>
  A conversation that ends from one of its states leaves \<open>user_data\<close> empty, but for
  those two exits of the update flow; \<open>/cancel\<close> ends every flow in every state with
  \<open>user_data\<close> empty and reports the cancellation.
\<close>

lemma ended_conversation_cleared:
  assumes "fst (handle_update w fl (Some st, ud) u) = (None, ud')"
  shows "ud' = []
     \<or> fl = UpdateEventFlow
       \<and> (st = CALENDAR_EVENT_SELECTION \<and> unlisted_selection ud u
          \<or> st = CALENDAR_EVENT_UPDATE \<and> missing_event_id ud u)"
proof (cases "state_handler w fl st ud u")
  case None
  with assms show ?thesis
    using fallback_exit [of ud u]
    by (cases "fallback ud u") (auto simp add: handle_update_def)
next
  case (Some out)
  with assms have r: "returned out = Inr END" and s: "scratch out = ud'"
    by (auto simp add: handle_update_def split: sum.splits if_splits)
  show ?thesis
  proof (cases "ud' = []")
    case True
    then show ?thesis by simp
  next
    case False
    with s have "scratch out \<noteq> []" by simp
    from state_handler_exit [OF Some r this] show ?thesis by simp
  qed
qed

lemma cancel_clears_session:
  "handle_update w fl (Some st, ud) (Command ''cancel'' args)
     = ((None, []), [Reply (Text ''Operazione annullata.'') []])"
  by (simp add: handle_update_def state_handler_cancel fallback_def cancel_def)

lemma cancel_buttons_clear_session:
  "fst (handle_update w EventFlow (Some CALENDAR_EVENT_CONFIRMATION, ud)
          (CallbackQuery ''event_cancel'')) = (None, [])"
  "fst (handle_update w UpdateEventFlow (Some CALENDAR_EVENT_SELECTION, ud)
          (CallbackQuery ''event_cancel'')) = (None, [])"
  by (simp_all add: handle_update_def state_handler_def CALENDAR_EVENT_CONFIRMATION_def
      CALENDAR_EVENT_DESCRIPTION_def CALENDAR_EVENT_SELECTION_def starts_with_def
      add_event_confirmation_def update_event_selection_def)

text \<open>
  C7. Not every exit clears the session: two exits of the update flow keep it. In the
  selection state with two events listed, the button of an event that is not among them
  ends the conversation with the listed events and the chosen id still in \<open>user_data\<close>;
  and in the update state, a text when no event id is stored ends the conversation with
  \<open>user_data\<close> as it was.
\<close>

theorem session_kept_on_exit:
  "handle_update example_world UpdateEventFlow (Some CALENDAR_EVENT_SELECTION, example_session)
     (CallbackQuery ''event_ev9'')
   = ((None, example_session @ [(''event_id'', UStr ''ev9'')]),
      [Edit (Text ''Evento non trovato. Riprova.'') []])
   \<and> example_session @ [(''event_id'', UStr ''ev9'')] \<noteq> []
   \<and> handle_update example_world UpdateEventFlow (Some CALENDAR_EVENT_UPDATE, example_session)
       (TextMessage ''Sposta a domani'')
     = ((None, example_session), [Reply (Text ''Errore: ID evento mancante. Riprova.'') []])
   \<and> example_session \<noteq> []"
  by (simp add: handle_update_def state_handler_def update_event_selection_def
      update_event_changes_def CALENDAR_EVENT_SELECTION_def CALENDAR_EVENT_UPDATE_def
      starts_with_def events_of_def example_session_def END_def)

end
